theory Spec2Isabelle
  imports Complex_Main "HOL-Library.AList" "HOL-Library.Char_ord" "HOL-Library.List_Lexorder"
    "HOL-Library.Product_Lexorder"
begin

section \<open>Documents and Python values\<close>

text \<open>
  A stored reading is a flat document: an ordered list of key/value pairs with distinct
  keys, as a Python \<^verbatim>\<open>dict\<close> is. Python's \<^verbatim>\<open>int\<close> and \<^verbatim>\<open>float\<close> are both embedded in the real
  numbers (arithmetic is exact: binary floating point is not modelled), \<^verbatim>\<open>None\<close> is
  \<open>VNull\<close>.
\<close>

datatype bson = VNum real | VStr string | VNull

type_synonym doc = "(string \<times> bson) list"

text \<open>The exceptions the modelled code can meet; all are subclasses of \<^verbatim>\<open>Exception\<close>.
  Those of the database driver are kept apart: a failing store raises one of them.\<close>

datatype pymongo_error = AutoReconnect | ServerSelectionTimeoutError | OperationFailure

datatype py_error = TypeError | ZeroDivisionError | OverflowError | StatisticsError
  | PyMongoError pymongo_error

text \<open>\<^verbatim>\<open>d[k] = v\<close>, and a dict display \<^verbatim>\<open>{k1: v1, k2: v2, ...}\<close>: a later entry with the same
  key replaces the value and keeps the position of the first.\<close>

definition dict_of :: "(string \<times> bson) list \<Rightarrow> doc" where
  "dict_of kvs = foldl (\<lambda>d (k, v). AList.update k v d) [] kvs"

text \<open>\<^verbatim>\<open>reading.get(k)\<close>: \<^verbatim>\<open>None\<close> when the key is absent.\<close>

definition dict_get :: "doc \<Rightarrow> string \<Rightarrow> bson" where
  "dict_get d k = (case map_of d k of None \<Rightarrow> VNull | Some v \<Rightarrow> v)"

section \<open>Rounding\<close>

text \<open>\<^verbatim>\<open>round(x, n)\<close> of Python and \<^verbatim>\<open>$round\<close> of the aggregation pipeline: to the nearest
  multiple of \<open>10^-n\<close>, a tie going to the even one.\<close>

definition round_half_even :: "real \<Rightarrow> int" where
  "round_half_even x =
     (let f = \<lfloor>x\<rfloor>; d = x - of_int f
      in if d < 1 / 2 then f else if 1 / 2 < d then f + 1 else if even f then f else f + 1)"

definition py_round :: "real \<Rightarrow> nat \<Rightarrow> real" where
  "py_round x n = of_int (round_half_even (x * 10 ^ n)) / 10 ^ n"

section \<open>Clock and ISO-8601 timestamps\<close>

text \<open>A \<^verbatim>\<open>datetime\<close> value (proleptic Gregorian calendar, years 1 to 9999, months 1 to
  12), with the calendar arithmetic of the \<^verbatim>\<open>datetime\<close> module.\<close>

record datetime =
  year :: nat
  month :: nat
  day :: nat
  hour :: nat
  minute :: nat
  second :: nat
  microsecond :: nat

text \<open>The machine's clock at a call: the UTC instant, and the offset of the machine's
  local time zone from UTC in minutes. \<^verbatim>\<open>datetime.now(timezone.utc)\<close> reads the first;
  \<^verbatim>\<open>datetime.now()\<close> is the naive local wall-clock time, the instant shifted by the offset.\<close>

record clock =
  utc_now :: datetime
  utcoffset_minutes :: int

definition is_leap :: "nat \<Rightarrow> bool" where
  "is_leap y = (y mod 4 = 0 \<and> (y mod 100 \<noteq> 0 \<or> y mod 400 = 0))"

definition days_in_month :: "nat \<Rightarrow> nat \<Rightarrow> nat" where
  "days_in_month y m =
     (if m = 2 \<and> is_leap y then 29
      else [0, 31, 28, 31, 30, 31, 30, 31, 31, 30, 31, 30, 31] ! m)"

definition days_before_year :: "nat \<Rightarrow> nat" where
  "days_before_year y = (let y1 = y - 1 in y1 * 365 + y1 div 4 - y1 div 100 + y1 div 400)"

definition days_before_month :: "nat \<Rightarrow> nat \<Rightarrow> nat" where
  "days_before_month y m =
     [0, 0, 31, 59, 90, 120, 151, 181, 212, 243, 273, 304, 334] ! m
       + (if 2 < m \<and> is_leap y then 1 else 0)"

definition ymd2ord :: "nat \<Rightarrow> nat \<Rightarrow> nat \<Rightarrow> nat" where
  "ymd2ord y m d = days_before_year y + days_before_month y m + d"

text \<open>The inverse, from the day number (1 is 0001-01-01) to year, month and day.\<close>

definition ord2ymd :: "nat \<Rightarrow> nat \<times> nat \<times> nat" where
  "ord2ymd n0 =
     (let n = n0 - 1;
          n400 = n div 146097; n = n mod 146097;
          n100 = n div 36524; n = n mod 36524;
          n4 = n div 1461; n = n mod 1461;
          n1 = n div 365; n = n mod 365;
          y = n400 * 400 + 1 + n100 * 100 + n4 * 4 + n1
      in if n1 = 4 \<or> n100 = 4 then (y - 1, 12, 31)
         else
           (let m = (n + 50) div 32;
                preceding = days_before_month y m
            in if n < preceding then (y, m - 1, n + 1 + days_in_month y (m - 1) - preceding)
               else (y, m, n + 1 - preceding)))"

text \<open>Microseconds since the start of day 1, and back.\<close>

definition to_micros :: "datetime \<Rightarrow> int" where
  "to_micros t =
     int ((((ymd2ord (year t) (month t) (day t) * 24 + hour t) * 60 + minute t) * 60
            + second t) * 1000000 + microsecond t)"

definition of_micros :: "int \<Rightarrow> datetime" where
  "of_micros us =
     (let n = nat us;
          secs = n div 1000000;
          days = secs div 86400;
          r = secs mod 86400
      in case ord2ymd days of (y, m, d) \<Rightarrow>
           \<lparr> year = y, month = m, day = d,
             hour = r div 3600, minute = (r mod 3600) div 60, second = r mod 60,
             microsecond = n mod 1000000 \<rparr>)"

text \<open>\<^verbatim>\<open>t - timedelta(hours=h)\<close>: \<^verbatim>\<open>OverflowError\<close> when the result leaves the years
  1 to 9999.\<close>

definition minus_hours :: "datetime \<Rightarrow> int \<Rightarrow> py_error + datetime" where
  "minus_hours t h =
     (let us = to_micros t - h * 3600000000
      in if us < 86400000000 \<or> 3652060 * 86400000000 \<le> us then Inl OverflowError
         else Inr (of_micros us))"

definition datetime_now_utc :: "clock \<Rightarrow> datetime" where
  "datetime_now_utc c = utc_now c"

definition datetime_now :: "clock \<Rightarrow> datetime" where
  "datetime_now c = of_micros (to_micros (utc_now c) + utcoffset_minutes c * 60000000)"

text \<open>Decimal digits, zero-padded to a width.\<close>

definition digit_char :: "nat \<Rightarrow> char" where
  "digit_char n = ''0123456789'' ! (n mod 10)"

fun pad :: "nat \<Rightarrow> nat \<Rightarrow> string" where
  "pad 0 n = []"
| "pad (Suc w) n = pad w (n div 10) @ [digit_char n]"

text \<open>\<^verbatim>\<open>isoformat()\<close> of a naive datetime; the fraction is printed only when it is not zero.\<close>

definition isoformat :: "datetime \<Rightarrow> string" where
  "isoformat t =
     pad 4 (year t) @ ''-'' @ pad 2 (month t) @ ''-'' @ pad 2 (day t) @ ''T''
       @ pad 2 (hour t) @ '':'' @ pad 2 (minute t) @ '':'' @ pad 2 (second t)
       @ (if microsecond t = 0 then [] else ''.'' @ pad 6 (microsecond t))"

text \<open>\<^verbatim>\<open>isoformat()\<close> of a datetime aware of \<^verbatim>\<open>timezone.utc\<close>.\<close>

definition isoformat_utc :: "datetime \<Rightarrow> string" where
  "isoformat_utc t = isoformat t @ ''+00:00''"

section \<open>The sensor simulator\<close>

text \<open>The outcomes of the calls to \<^verbatim>\<open>random\<close> made while one reading is generated:
  \<open>unit_temperature\<close> and \<open>unit_uv\<close> are what \<^verbatim>\<open>random.random()\<close> returned (in \<open>[0, 1)\<close>)
  inside the two calls of \<^verbatim>\<open>random.uniform\<close>, the others are what the generator's integer
  source returned for each bounded draw.\<close>

record draws =
  pick_device :: nat
  unit_temperature :: real
  draw_humidity :: nat
  draw_light :: nat
  unit_uv :: real
  pick_location :: nat

definition randbelow :: "nat \<Rightarrow> nat \<Rightarrow> nat" where
  "randbelow n k = k mod n"

definition random_choice :: "'a list \<Rightarrow> nat \<Rightarrow> 'a" where
  "random_choice seq k = seq ! randbelow (length seq) k"

definition random_randint :: "int \<Rightarrow> int \<Rightarrow> nat \<Rightarrow> int" where
  "random_randint a b k = a + int (randbelow (nat (b + 1 - a)) k)"

definition random_uniform :: "real \<Rightarrow> real \<Rightarrow> real \<Rightarrow> real" where
  "random_uniform a b u = a + (b - a) * u"

definition interior_temp_range :: "real \<times> real" where "interior_temp_range = (18, 28)"
definition interior_humidity_range :: "int \<times> int" where "interior_humidity_range = (30, 70)"
definition interior_light_range :: "int \<times> int" where "interior_light_range = (100, 500)"
definition exterior_temp_range :: "real \<times> real" where "exterior_temp_range = (5, 35)"
definition exterior_light_range :: "int \<times> int" where "exterior_light_range = (200, 1000)"
definition uv_index_range :: "real \<times> real" where "uv_index_range = (0, 11)"

definition interior_sensors :: "string list" where
  "interior_sensors = [''sensor_01'', ''sensor_03'', ''sensor_05'']"

definition exterior_sensors :: "string list" where
  "exterior_sensors = [''sensor_02'', ''sensor_04'', ''sensor_06'']"

definition interior_locations :: "string list" where
  "interior_locations = [''Sala 1'', ''Sala 2'', ''Oficina A'', ''Oficina B'']"

text \<open>The second name is \<^verbatim>\<open>Jardin\<close> with an acute accent on the i, in UTF-8.\<close>

definition exterior_locations :: "string list" where
  "exterior_locations =
     [''Patio'', ''Jard'' @ [CHR 0xC3, CHR 0xAD] @ ''n'', ''Terraza'', ''Entrada'']"

definition celsius_to_fahrenheit :: "real \<Rightarrow> real" where
  "celsius_to_fahrenheit celsius = py_round (celsius * 9 / 5 + 32) 1"

definition generate_interior_reading :: "string option \<Rightarrow> draws \<Rightarrow> clock \<Rightarrow> doc" where
  "generate_interior_reading device_id rnd clk =
     (let device_id = (case device_id of
                         None \<Rightarrow> random_choice interior_sensors (pick_device rnd)
                       | Some d \<Rightarrow> d);
          temperature =
            py_round (random_uniform (fst interior_temp_range) (snd interior_temp_range)
                        (unit_temperature rnd)) 1;
          humidity = random_randint (fst interior_humidity_range) (snd interior_humidity_range)
                       (draw_humidity rnd);
          light = random_randint (fst interior_light_range) (snd interior_light_range)
                    (draw_light rnd);
          location = random_choice interior_locations (pick_location rnd)
      in dict_of
           [(''device_id'', VStr device_id),
            (''type'', VStr ''interior''),
            (''temperature'', VNum temperature),
            (''humidity'', VNum (of_int humidity)),
            (''light'', VNum (of_int light)),
            (''unit'', VStr ''C''),
            (''location'', VStr location),
            (''timestamp'', VStr (isoformat_utc (datetime_now_utc clk)))])"

definition generate_exterior_reading :: "string option \<Rightarrow> draws \<Rightarrow> clock \<Rightarrow> doc" where
  "generate_exterior_reading device_id rnd clk =
     (let device_id = (case device_id of
                         None \<Rightarrow> random_choice exterior_sensors (pick_device rnd)
                       | Some d \<Rightarrow> d);
          temp_celsius = random_uniform (fst exterior_temp_range) (snd exterior_temp_range)
                           (unit_temperature rnd);
          temperature = celsius_to_fahrenheit temp_celsius;
          light = random_randint (fst exterior_light_range) (snd exterior_light_range)
                    (draw_light rnd);
          uv_index = py_round (random_uniform (fst uv_index_range) (snd uv_index_range)
                                 (unit_uv rnd)) 1;
          location = random_choice exterior_locations (pick_location rnd)
      in dict_of
           [(''device_id'', VStr device_id),
            (''type'', VStr ''exterior''),
            (''temperature'', VNum temperature),
            (''light'', VNum (of_int light)),
            (''uv_index'', VNum uv_index),
            (''unit'', VStr ''F''),
            (''location'', VStr location),
            (''timestamp'', VStr (isoformat_utc (datetime_now_utc clk)))])"

text \<open>A clock reading used in the examples: 2026-11-04 09:30:00 UTC on a machine whose
  local time is three hours behind UTC.\<close>

definition sample_clock :: clock where
  "sample_clock = \<lparr> utc_now = \<lparr> year = 2026, month = 11, day = 4, hour = 9, minute = 30,
      second = 0, microsecond = 0 \<rparr>, utcoffset_minutes = - 180 \<rparr>"

definition sample_draws :: draws where
  "sample_draws = \<lparr> pick_device = 4, unit_temperature = 1 / 2, draw_humidity = 45,
      draw_light = 1000, unit_uv = 77 / 100, pick_location = 6 \<rparr>"

section \<open>The document store\<close>

text \<open>
  The collection handle of an analyzer: the documents stored and, when the store is going
  to fail (connection lost, server error), the exception its next call raises. The store
  itself is MongoDB; the operators below follow its documentation, restricted to flat
  documents holding numbers, strings and nulls.
\<close>

record collection =
  stored :: "doc list"
  fault :: "pymongo_error option"

definition bind_result :: "(py_error + 'a) \<Rightarrow> ('a \<Rightarrow> py_error + 'b) \<Rightarrow> py_error + 'b" where
  "bind_result r f = (case r of Inl e \<Rightarrow> Inl e | Inr x \<Rightarrow> f x)"

text \<open>\<^verbatim>\<open>try: ... except Exception: return []\<close>\<close>

definition except_return_empty :: "(py_error + 'a list) \<Rightarrow> py_error + 'a list" where
  "except_return_empty r = (case r of Inl e \<Rightarrow> Inr [] | Inr x \<Rightarrow> Inr x)"

text \<open>An inclusion projection keeps the listed keys and \<^verbatim>\<open>_id\<close>.\<close>

definition project_fields :: "string list \<Rightarrow> doc \<Rightarrow> doc" where
  "project_fields keys d = filter (\<lambda>(k, v). k \<in> set keys \<or> k = ''_id'') d"

definition collection_find :: "collection \<Rightarrow> string list \<Rightarrow> py_error + doc list" where
  "collection_find c keys =
     (case fault c of
        Some e \<Rightarrow> Inl (PyMongoError e)
      | None \<Rightarrow> Inr (map (project_fields keys) (stored c)))"

text \<open>The comparison order of values in sort stages and in \<^verbatim>\<open>$min\<close>/\<^verbatim>\<open>$max\<close>: null, then
  numbers by value, then strings by their bytes. A missing field sorts as null.\<close>

definition bson_key :: "bson \<Rightarrow> nat \<times> real \<times> string" where
  "bson_key v = (case v of VNull \<Rightarrow> (0, 0, []) | VNum x \<Rightarrow> (1, x, []) | VStr s \<Rightarrow> (2, 0, s))"

definition field_key :: "bson option \<Rightarrow> nat \<times> real \<times> string" where
  "field_key f = (case f of None \<Rightarrow> (0, 0, []) | Some v \<Rightarrow> bson_key v)"

text \<open>\<^verbatim>\<open>list.sort(key=..., reverse=True)\<close> and a descending sort stage: descending by key,
  elements with equal keys staying in their original order.\<close>

definition sort_reverse :: "('a \<Rightarrow> 'k::linorder) \<Rightarrow> 'a list \<Rightarrow> 'a list" where
  "sort_reverse key xs = rev (sort_key key (rev xs))"

section \<open>Outlier detection\<close>

text \<open>\<^verbatim>\<open>statistics.mean\<close> and \<^verbatim>\<open>statistics.stdev\<close> on numbers: the arithmetic mean and the
  sample standard deviation (the sum of squared deviations divided by \<open>n - 1\<close>).\<close>

definition mean_of :: "real list \<Rightarrow> real" where
  "mean_of xs = sum_list xs / real (length xs)"

definition stdev_of :: "real list \<Rightarrow> real" where
  "stdev_of xs = sqrt ((\<Sum>x \<leftarrow> xs. (x - mean_of xs)\<^sup>2) / real (length xs - 1))"

fun nums_of :: "bson list \<Rightarrow> py_error + real list" where
  "nums_of [] = Inr []"
| "nums_of (VNum x # vs) = bind_result (nums_of vs) (\<lambda>xs. Inr (x # xs))"
| "nums_of (v # vs) = Inl TypeError"

definition statistics_mean :: "bson list \<Rightarrow> py_error + real" where
  "statistics_mean data =
     bind_result (nums_of data)
       (\<lambda>xs. if length xs < 1 then Inl StatisticsError else Inr (mean_of xs))"

definition statistics_stdev :: "bson list \<Rightarrow> py_error + real" where
  "statistics_stdev data =
     bind_result (nums_of data)
       (\<lambda>xs. if length xs < 2 then Inl StatisticsError else Inr (stdev_of xs))"

definition py_div :: "real \<Rightarrow> real \<Rightarrow> py_error + real" where
  "py_div a b = (if b = 0 then Inl ZeroDivisionError else Inr (a / b))"

text \<open>The value of a reading that is analysed: a Fahrenheit temperature is converted to
  Celsius (\<^verbatim>\<open>TypeError\<close> when it is not a number), anything else is taken as it is.\<close>

definition normalized :: "string \<Rightarrow> doc \<Rightarrow> bson \<Rightarrow> py_error + bson" where
  "normalized field reading v =
     (if field = ''temperature'' \<and> dict_get reading ''unit'' = VStr ''F''
      then (case v of VNum x \<Rightarrow> Inr (VNum ((x - 32) / 1.8)) | _ \<Rightarrow> Inl TypeError)
      else Inr v)"

text \<open>The first loop: the values of the readings that have the field.\<close>

fun collect_values :: "string \<Rightarrow> doc list \<Rightarrow> py_error + bson list" where
  "collect_values field [] = Inr []"
| "collect_values field (reading # rest) =
     (case map_of reading field of
        None \<Rightarrow> collect_values field rest
      | Some v \<Rightarrow>
          bind_result (normalized field reading v) (\<lambda>value.
          bind_result (collect_values field rest) (\<lambda>values. Inr (value # values))))"

definition outlier_doc ::
  "string \<Rightarrow> doc \<Rightarrow> bson \<Rightarrow> real \<Rightarrow> real \<Rightarrow> real \<Rightarrow> real \<Rightarrow> doc" where
  "outlier_doc field reading v val z_score mean std_dev =
     dict_of
       [(''device_id'', dict_get reading ''device_id''),
        (''type'', dict_get reading ''type''),
        (''timestamp'', dict_get reading ''timestamp''),
        (field, v),
        (''unit'', dict_get reading ''unit''),
        (''z_score'', VNum (py_round z_score 3)),
        (''value_celsius'', VNum (if field = ''temperature'' then py_round val 2 else val)),
        (''mean'', VNum (py_round mean 2)),
        (''std_dev'', VNum (py_round std_dev 2))]"

text \<open>The second loop: the readings whose z-score exceeds the threshold.\<close>

fun find_outliers ::
  "string \<Rightarrow> real \<Rightarrow> real \<Rightarrow> real \<Rightarrow> doc list \<Rightarrow> py_error + doc list" where
  "find_outliers field z_threshold mean std_dev [] = Inr []"
| "find_outliers field z_threshold mean std_dev (reading # rest) =
     (case map_of reading field of
        None \<Rightarrow> find_outliers field z_threshold mean std_dev rest
      | Some v \<Rightarrow>
          bind_result (normalized field reading v) (\<lambda>value.
          bind_result (case value of VNum x \<Rightarrow> Inr x | _ \<Rightarrow> Inl TypeError) (\<lambda>val.
          bind_result (py_div (val - mean) std_dev) (\<lambda>q.
          bind_result (find_outliers field z_threshold mean std_dev rest) (\<lambda>outliers.
            Inr (if z_threshold < \<bar>q\<bar>
                 then outlier_doc field reading v val \<bar>q\<bar> mean std_dev # outliers
                 else outliers))))))"

text \<open>\<^verbatim>\<open>x["z_score"]\<close>, the sort key; every outlier document has it, as a number.\<close>

definition z_score_of :: "doc \<Rightarrow> real" where
  "z_score_of x = (case map_of x ''z_score'' of Some (VNum z) \<Rightarrow> z | _ \<Rightarrow> 0)"

definition detect_outliers_body :: "collection \<Rightarrow> string \<Rightarrow> real \<Rightarrow> py_error + doc list" where
  "detect_outliers_body coll field z_threshold =
     bind_result
       (collection_find coll [field, ''device_id'', ''type'', ''timestamp'', ''unit''])
       (\<lambda>all_readings.
          if all_readings = [] then Inr []
          else
            bind_result (collect_values field all_readings) (\<lambda>values.
              if length values < 2 then Inr []
              else
                bind_result (statistics_mean values) (\<lambda>mean.
                bind_result (if 1 < length values then statistics_stdev values else Inr 0)
                  (\<lambda>std_dev.
                    if std_dev = 0 then Inr []
                    else
                      bind_result (find_outliers field z_threshold mean std_dev all_readings)
                        (\<lambda>outliers. Inr (sort_reverse z_score_of outliers))))))"

text \<open>The method: \<open>None\<close> is an analyzer that never connected. The diagnostic printed by
  the handler is not modelled.\<close>

definition detect_outliers :: "collection option \<Rightarrow> string \<Rightarrow> real \<Rightarrow> py_error + doc list" where
  "detect_outliers collection field z_threshold =
     (case collection of
        None \<Rightarrow> Inr []
      | Some coll \<Rightarrow> except_return_empty (detect_outliers_body coll field z_threshold))"

text \<open>For stating properties: the number analysed for a reading (when it has the field
  and the value is a number), the numbers analysed for a list of readings, and whether
  every value of the field is a number.\<close>

definition reading_value :: "string \<Rightarrow> doc \<Rightarrow> real option" where
  "reading_value field reading =
     (case map_of reading field of
        None \<Rightarrow> None
      | Some v \<Rightarrow> (case normalized field reading v of Inr (VNum x) \<Rightarrow> Some x | _ \<Rightarrow> None))"

definition field_values :: "string \<Rightarrow> doc list \<Rightarrow> real list" where
  "field_values field readings = List.map_filter (reading_value field) readings"

definition numeric_field :: "string \<Rightarrow> doc list \<Rightarrow> bool" where
  "numeric_field field readings =
     list_all (\<lambda>r. case map_of r field of Some (VStr s) \<Rightarrow> False | Some VNull \<Rightarrow> False
                  | _ \<Rightarrow> True) readings"

text \<open>A stored reading with a Celsius temperature, and the fixed vector of the
  specification's example.\<close>

definition celsius_reading :: "real \<Rightarrow> doc" where
  "celsius_reading t =
     [(''device_id'', VStr ''sensor_01''), (''type'', VStr ''interior''),
      (''temperature'', VNum t), (''unit'', VStr ''C'')]"

definition example_vector :: "real list" where
  "example_vector = [10, 10, 10, 10, 100]"

definition example_collection :: "real list \<Rightarrow> collection" where
  "example_collection ts = \<lparr> stored = map celsius_reading ts, fault = None \<rparr>"

text \<open>For stating properties, in the words of the specification: the outlier record of
  a reading, given the mean and the standard deviation, when the reading has a number
  \<open>v\<close> with \<open>|v - mean| / std_dev\<close> above the threshold.\<close>

definition outlier_of :: "string \<Rightarrow> real \<Rightarrow> real \<Rightarrow> real \<Rightarrow> doc \<Rightarrow> doc option" where
  "outlier_of field z_threshold mean std_dev r =
     (case map_of r field of
        None \<Rightarrow> None
      | Some raw \<Rightarrow>
          (case reading_value field r of
             None \<Rightarrow> None
           | Some v \<Rightarrow>
               if z_threshold < \<bar>v - mean\<bar> / std_dev
               then Some (outlier_doc field r raw v (\<bar>v - mean\<bar> / std_dev) mean std_dev)
               else None))"



section \<open>The aggregation pipelines\<close>

text \<open>
  The stages of the two pipelines, written as functions on the list of stored documents.
  An expression that fails makes the whole \<^verbatim>\<open>aggregate\<close> call raise \<^verbatim>\<open>OperationFailure\<close>.
  The store does not promise an order for the groups of a \<^verbatim>\<open>$group\<close> stage nor for
  documents a \<^verbatim>\<open>$sort\<close> stage finds equal: here groups come in the order of \<open>remdups\<close> and
  the sorts are stable.
\<close>

definition collection_aggregate ::
  "collection \<Rightarrow> (doc list \<Rightarrow> py_error + doc list) \<Rightarrow> py_error + doc list" where
  "collection_aggregate c pipeline =
     (case fault c of Some e \<Rightarrow> Inl (PyMongoError e) | None \<Rightarrow> pipeline (stored c))"

fun map_result :: "('a \<Rightarrow> py_error + 'b) \<Rightarrow> 'a list \<Rightarrow> py_error + 'b list" where
  "map_result f [] = Inr []"
| "map_result f (x # xs) =
     bind_result (f x) (\<lambda>y. bind_result (map_result f xs) (\<lambda>ys. Inr (y # ys)))"

text \<open>\<^verbatim>\<open>{"$match": {"timestamp": {"$gte": start}}}\<close> with a string: the documents whose
  timestamp is a string not below \<open>start\<close>, strings being compared byte by byte.\<close>

definition match_timestamp_gte :: "string \<Rightarrow> doc \<Rightarrow> bool" where
  "match_timestamp_gte start d =
     (case map_of d ''timestamp'' of Some (VStr s) \<Rightarrow> start \<le> s | _ \<Rightarrow> False)"

text \<open>\<^verbatim>\<open>$hour\<close> of \<^verbatim>\<open>$dateFromString\<close>: the hour, in UTC, of a timestamp
  \<^verbatim>\<open>YYYY-MM-DDTHH:MM:SS\<close>, with an optional fraction of a second and an optional zone
  (\<^verbatim>\<open>Z\<close> or an offset \<^verbatim>\<open>+HH:MM\<close>, \<^verbatim>\<open>-HH:MM\<close>); without a zone the time is taken as UTC. This
  is the layout \<open>isoformat\<close> writes; a string in another layout is a conversion failure
  here.\<close>

definition digit_val :: "char \<Rightarrow> nat option" where
  "digit_val c =
     map_of [(CHR ''0'', 0), (CHR ''1'', 1), (CHR ''2'', 2), (CHR ''3'', 3), (CHR ''4'', 4),
             (CHR ''5'', 5), (CHR ''6'', 6), (CHR ''7'', 7), (CHR ''8'', 8), (CHR ''9'', 9)] c"

definition number_of :: "string \<Rightarrow> nat option" where
  "number_of s =
     (if s = [] then None
      else foldl (\<lambda>acc c. case acc of
                             None \<Rightarrow> None
                           | Some a \<Rightarrow> (case digit_val c of
                                         None \<Rightarrow> None
                                       | Some d \<Rightarrow> Some (10 * a + d)))
             (Some 0) s)"

definition zone_minutes :: "string \<Rightarrow> int option" where
  "zone_minutes z =
     (if z = [] \<or> z = ''Z'' then Some 0
      else if length z = 6 \<and> (take 1 z = ''+'' \<or> take 1 z = ''-'') \<and> take 1 (drop 3 z) = '':''
      then (case number_of (take 2 (drop 1 z)) of
              None \<Rightarrow> None
            | Some h \<Rightarrow>
                (case number_of (drop 4 z) of
                   None \<Rightarrow> None
                 | Some m \<Rightarrow>
                     if take 1 z = ''-'' then Some (- int (h * 60 + m))
                     else Some (int (h * 60 + m))))
      else None)"

definition is_digit :: "char \<Rightarrow> bool" where
  "is_digit c = (digit_val c \<noteq> None)"

definition zone_part :: "string \<Rightarrow> string option" where
  "zone_part rest =
     (if take 1 rest = ''.''
      then (let digits = takeWhile is_digit (drop 1 rest)
            in if digits = [] then None else Some (drop (1 + length digits) rest))
      else Some rest)"

definition dateFromString_hour :: "string \<Rightarrow> py_error + nat" where
  "dateFromString_hour s =
     (if 19 \<le> length s \<and> take 1 (drop 4 s) = ''-'' \<and> take 1 (drop 7 s) = ''-''
         \<and> take 1 (drop 10 s) = ''T'' \<and> take 1 (drop 13 s) = '':''
         \<and> take 1 (drop 16 s) = '':''
      then (case (number_of (take 4 s), number_of (take 2 (drop 5 s)),
                  number_of (take 2 (drop 8 s)), number_of (take 2 (drop 11 s)),
                  number_of (take 2 (drop 14 s)), number_of (take 2 (drop 17 s)),
                  case zone_part (drop 19 s) of None \<Rightarrow> None | Some z \<Rightarrow> zone_minutes z) of
              (Some y, Some mo, Some d, Some h, Some mi, Some sec, Some off) \<Rightarrow>
                if 1 \<le> mo \<and> mo \<le> 12 \<and> 1 \<le> d \<and> d \<le> 31 \<and> h < 24 \<and> mi < 60 \<and> sec < 60
                then Inr (nat (((int (h * 60 + mi) - off) div 60) mod 24))
                else Inl (PyMongoError OperationFailure)
            | _ \<Rightarrow> Inl (PyMongoError OperationFailure))
      else Inl (PyMongoError OperationFailure))"

text \<open>The first \<^verbatim>\<open>$project\<close> stage of the hourly pipeline: the hour (null for a null or
  missing timestamp, a failure for a number), the temperature in Celsius (null when the
  temperature is null or missing) and the type as it is. A temperature that is a string
  fails in \<^verbatim>\<open>$subtract\<close> when the unit is F; otherwise it would reach \<^verbatim>\<open>$max\<close>, be the
  maximum of its group and fail in \<^verbatim>\<open>$round\<close>: the failure is raised here in both
  cases.\<close>

record hourly_row =
  row_hour :: "nat option"
  row_type :: "bson option"
  row_temperature_celsius :: "real option"

definition project_hour :: "doc \<Rightarrow> py_error + nat option" where
  "project_hour d =
     (case map_of d ''timestamp'' of
        Some (VStr s) \<Rightarrow> bind_result (dateFromString_hour s) (\<lambda>h. Inr (Some h))
      | Some (VNum x) \<Rightarrow> Inl (PyMongoError OperationFailure)
      | _ \<Rightarrow> Inr None)"

definition project_temperature_celsius :: "doc \<Rightarrow> py_error + real option" where
  "project_temperature_celsius d =
     (case map_of d ''temperature'' of
        Some (VNum x) \<Rightarrow>
          Inr (Some (if dict_get d ''unit'' = VStr ''F'' then (x - 32) / 1.8 - 0 else x))
      | Some (VStr s) \<Rightarrow> Inl (PyMongoError OperationFailure)
      | _ \<Rightarrow> Inr None)"

definition project_hourly :: "doc \<Rightarrow> py_error + hourly_row" where
  "project_hourly d =
     bind_result (project_hour d) (\<lambda>h.
     bind_result (project_temperature_celsius d) (\<lambda>t.
       Inr \<lparr> row_hour = h, row_type = map_of d ''type'', row_temperature_celsius = t \<rparr>))"

text \<open>The \<^verbatim>\<open>$group\<close> stage by hour and type with its accumulators (which skip nulls), and
  the second \<^verbatim>\<open>$project\<close> stage, which rounds to two decimals.\<close>

definition group_key :: "hourly_row \<Rightarrow> nat option \<times> bson option" where
  "group_key r = (row_hour r, row_type r)"

definition accumulate_avg :: "real list \<Rightarrow> real option" where
  "accumulate_avg xs = (if xs = [] then None else Some (sum_list xs / real (length xs)))"

definition accumulate_min :: "real list \<Rightarrow> real option" where
  "accumulate_min xs = (case xs of [] \<Rightarrow> None | x # rest \<Rightarrow> Some (fold min rest x))"

definition accumulate_max :: "real list \<Rightarrow> real option" where
  "accumulate_max xs = (case xs of [] \<Rightarrow> None | x # rest \<Rightarrow> Some (fold max rest x))"

definition round_stage :: "real option \<Rightarrow> bson" where
  "round_stage v = (case v of None \<Rightarrow> VNull | Some x \<Rightarrow> VNum (py_round x 2))"

definition hourly_summary :: "nat option \<times> bson option \<Rightarrow> hourly_row list \<Rightarrow> doc" where
  "hourly_summary k rows =
     (let members = filter (\<lambda>r. group_key r = k) rows;
          temps = List.map_filter row_temperature_celsius members
      in dict_of
           ([(''hour'', case fst k of None \<Rightarrow> VNull | Some h \<Rightarrow> VNum (real h))]
            @ (case snd k of None \<Rightarrow> [] | Some t \<Rightarrow> [(''sensor_type'', t)])
            @ [(''average_temperature_celsius'', round_stage (accumulate_avg temps)),
               (''min_temperature_celsius'', round_stage (accumulate_min temps)),
               (''max_temperature_celsius'', round_stage (accumulate_max temps)),
               (''readings_count'', VNum (real (length members)))]))"

definition hourly_sort_key :: "doc \<Rightarrow> (nat \<times> real \<times> string) \<times> (nat \<times> real \<times> string)" where
  "hourly_sort_key d = (field_key (map_of d ''hour''), field_key (map_of d ''sensor_type''))"

definition hourly_pipeline :: "string \<Rightarrow> doc list \<Rightarrow> py_error + doc list" where
  "hourly_pipeline start docs =
     bind_result (map_result project_hourly (filter (match_timestamp_gte start) docs))
       (\<lambda>rows. Inr (sort_key hourly_sort_key
                     (map (\<lambda>k. hourly_summary k rows) (remdups (map group_key rows)))))"

definition average_temperature_by_hour_body ::
  "collection \<Rightarrow> clock \<Rightarrow> int \<Rightarrow> py_error + doc list" where
  "average_temperature_by_hour_body coll clk hours_back =
     bind_result (minus_hours (datetime_now clk) hours_back) (\<lambda>start_time.
       collection_aggregate coll (hourly_pipeline (isoformat start_time)))"

definition average_temperature_by_hour ::
  "collection option \<Rightarrow> clock \<Rightarrow> int \<Rightarrow> py_error + doc list" where
  "average_temperature_by_hour collection clk hours_back =
     (case collection of
        None \<Rightarrow> Inr []
      | Some coll \<Rightarrow> except_return_empty (average_temperature_by_hour_body coll clk hours_back))"

text \<open>The per-sensor count. \<^verbatim>\<open>$group\<close> by \<^verbatim>\<open>$device_id\<close> puts the documents without the
  field in the group of null; \<^verbatim>\<open>$first\<close> takes the field of the first document of the
  group, \<^verbatim>\<open>$min\<close> and \<^verbatim>\<open>$max\<close> skip nulls.\<close>

definition first_field :: "string \<Rightarrow> doc list \<Rightarrow> bson" where
  "first_field f members = (case members of [] \<Rightarrow> VNull | d # rest \<Rightarrow> dict_get d f)"

definition min_bson :: "bson \<Rightarrow> bson \<Rightarrow> bson" where
  "min_bson a b = (if bson_key a \<le> bson_key b then a else b)"

definition max_bson :: "bson \<Rightarrow> bson \<Rightarrow> bson" where
  "max_bson a b = (if bson_key a \<le> bson_key b then b else a)"

definition field_min :: "string \<Rightarrow> doc list \<Rightarrow> bson" where
  "field_min f members =
     (case filter (\<lambda>v. v \<noteq> VNull) (map (\<lambda>d. dict_get d f) members) of
        [] \<Rightarrow> VNull | v # vs \<Rightarrow> fold min_bson vs v)"

definition field_max :: "string \<Rightarrow> doc list \<Rightarrow> bson" where
  "field_max f members =
     (case filter (\<lambda>v. v \<noteq> VNull) (map (\<lambda>d. dict_get d f) members) of
        [] \<Rightarrow> VNull | v # vs \<Rightarrow> fold max_bson vs v)"

definition sensor_count_row :: "bson \<Rightarrow> doc list \<Rightarrow> doc" where
  "sensor_count_row k docs =
     (let members = filter (\<lambda>d. dict_get d ''device_id'' = k) docs
      in dict_of
           [(''total_readings'', VNum (real (length members))),
            (''sensor_type'', first_field ''type'' members),
            (''location'', first_field ''location'' members),
            (''first_reading'', field_min ''timestamp'' members),
            (''last_reading'', field_max ''timestamp'' members),
            (''device_id'', k)])"

definition count_pipeline :: "doc list \<Rightarrow> py_error + doc list" where
  "count_pipeline docs =
     Inr (sort_reverse (\<lambda>d. field_key (map_of d ''total_readings''))
            (map (\<lambda>k. sensor_count_row k docs)
               (remdups (map (\<lambda>d. dict_get d ''device_id'') docs))))"

definition count_readings_by_sensor :: "collection option \<Rightarrow> py_error + doc list" where
  "count_readings_by_sensor collection =
     (case collection of
        None \<Rightarrow> Inr []
      | Some coll \<Rightarrow> except_return_empty (collection_aggregate coll count_pipeline))"

text \<open>The same count in the query class, with other field names.\<close>

definition readings_count_row :: "bson \<Rightarrow> doc list \<Rightarrow> doc" where
  "readings_count_row k docs =
     (let members = filter (\<lambda>d. dict_get d ''device_id'' = k) docs
      in dict_of
           [(''device_id'', k),
            (''readings_count'', VNum (real (length members))),
            (''sensor_type'', first_field ''type'' members),
            (''location'', first_field ''location'' members)])"

definition readings_count_pipeline :: "doc list \<Rightarrow> py_error + doc list" where
  "readings_count_pipeline docs =
     Inr (sort_reverse (\<lambda>d. field_key (map_of d ''readings_count''))
            (map (\<lambda>k. readings_count_row k docs)
               (remdups (map (\<lambda>d. dict_get d ''device_id'') docs))))"

definition get_readings_count_by_sensor :: "collection option \<Rightarrow> py_error + doc list" where
  "get_readings_count_by_sensor collection =
     (case collection of
        None \<Rightarrow> Inr []
      | Some coll \<Rightarrow> except_return_empty (collection_aggregate coll readings_count_pipeline))"

text \<open>For stating properties: the number stored under a key of a result document.\<close>

definition number_at :: "string \<Rightarrow> doc \<Rightarrow> real" where
  "number_at k d = (case map_of d k of Some (VNum x) \<Rightarrow> x | _ \<Rightarrow> 0)"

text \<open>Examples for the pipelines. The query is made at 12:00:00 UTC on 2026-11-04, on a
  machine whose local time is three hours behind UTC. The stored readings were generated
  at 09:45:00.25 UTC the day before, twice at 09:30:00 UTC the same day, and at 10:00:00
  UTC on 2026-10-01.\<close>

definition query_clock :: clock where
  "query_clock = \<lparr> utc_now = \<lparr> year = 2026, month = 11, day = 4, hour = 12, minute = 0,
      second = 0, microsecond = 0 \<rparr>, utcoffset_minutes = - 180 \<rparr>"

definition earlier_clock :: clock where
  "earlier_clock = \<lparr> utc_now = \<lparr> year = 2026, month = 11, day = 3, hour = 9, minute = 45,
      second = 0, microsecond = 250000 \<rparr>, utcoffset_minutes = - 180 \<rparr>"

definition old_clock :: clock where
  "old_clock = \<lparr> utc_now = \<lparr> year = 2026, month = 10, day = 1, hour = 10, minute = 0,
      second = 0, microsecond = 0 \<rparr>, utcoffset_minutes = - 180 \<rparr>"

definition other_draws :: draws where
  "other_draws = \<lparr> pick_device = 0, unit_temperature = 1 / 4, draw_humidity = 3,
      draw_light = 7, unit_uv = 0, pick_location = 1 \<rparr>"

definition hourly_sample :: collection where
  "hourly_sample =
     \<lparr> stored = [generate_interior_reading None other_draws earlier_clock,
                 generate_exterior_reading None sample_draws sample_clock,
                 generate_interior_reading None sample_draws sample_clock,
                 generate_interior_reading None sample_draws old_clock],
       fault = None \<rparr>"

definition stale_sample :: collection where
  "stale_sample =
     \<lparr> stored = [generate_interior_reading None sample_draws sample_clock], fault = None \<rparr>"




section \<open>Rounding and random draws: auxiliary facts\<close>

lemma round_half_even_lower: "of_int a \<le> x \<Longrightarrow> a \<le> round_half_even x"
proof -
  assume "of_int a \<le> x"
  then have "a \<le> \<lfloor>x\<rfloor>" by (simp add: le_floor_iff)
  then show ?thesis unfolding round_half_even_def Let_def by simp
qed

lemma round_half_even_upper: "x \<le> of_int b \<Longrightarrow> round_half_even x \<le> b"
proof -
  assume h: "x \<le> of_int b"
  then have fb: "\<lfloor>x\<rfloor> \<le> b" by (simp add: floor_le_iff)
  show ?thesis
  proof (cases "\<lfloor>x\<rfloor> = b")
    case True
    then have "x - of_int \<lfloor>x\<rfloor> \<le> 0" using h by simp
    then show ?thesis unfolding round_half_even_def Let_def using True by simp
  next
    case False
    then have "\<lfloor>x\<rfloor> + 1 \<le> b" using fb by simp
    then show ?thesis unfolding round_half_even_def Let_def using fb by simp
  qed
qed

lemma round_half_even_near: "\<bar>of_int (round_half_even x) - x\<bar> \<le> 1 / 2"
proof -
  have "of_int \<lfloor>x\<rfloor> \<le> x" "x < of_int \<lfloor>x\<rfloor> + 1" by linarith+
  then show ?thesis unfolding round_half_even_def Let_def
    by (simp split: if_splits; linarith)
qed

lemma py_round_lower: "of_int a / 10 ^ n \<le> x \<Longrightarrow> of_int a / 10 ^ n \<le> py_round x n"
proof -
  assume "of_int a / 10 ^ n \<le> x"
  then have "of_int a \<le> x * 10 ^ n" by (simp add: pos_divide_le_eq)
  then have "a \<le> round_half_even (x * 10 ^ n)" by (rule round_half_even_lower)
  then show ?thesis unfolding py_round_def by (simp add: divide_right_mono)
qed

lemma py_round_upper: "x \<le> of_int b / 10 ^ n \<Longrightarrow> py_round x n \<le> of_int b / 10 ^ n"
proof -
  assume "x \<le> of_int b / 10 ^ n"
  then have "x * 10 ^ n \<le> of_int b" by (simp add: pos_le_divide_eq)
  then have "round_half_even (x * 10 ^ n) \<le> b" by (rule round_half_even_upper)
  then show ?thesis unfolding py_round_def by (simp add: divide_right_mono)
qed

lemma py_round_near: "\<bar>py_round x n - x\<bar> \<le> 1 / (2 * 10 ^ n)"
proof -
  have "\<bar>of_int (round_half_even (x * 10 ^ n)) - x * 10 ^ n\<bar> \<le> 1 / 2"
    by (rule round_half_even_near)
  then have "\<bar>of_int (round_half_even (x * 10 ^ n)) - x * 10 ^ n\<bar> / 10 ^ n \<le> (1 / 2) / 10 ^ n"
    by (rule divide_right_mono) simp
  moreover have "\<bar>of_int (round_half_even (x * 10 ^ n)) - x * 10 ^ n\<bar> / 10 ^ n
      = \<bar>py_round x n - x\<bar>"
  proof -
    have "(of_int (round_half_even (x * 10 ^ n)) - x * 10 ^ n) / 10 ^ n = py_round x n - x"
      unfolding py_round_def by (simp add: diff_divide_distrib)
    then have "\<bar>(of_int (round_half_even (x * 10 ^ n)) - x * 10 ^ n) / 10 ^ n\<bar> = \<bar>py_round x n - x\<bar>"
      by simp
    then show ?thesis by (simp add: abs_divide)
  qed
  ultimately show ?thesis by simp
qed

lemma pad_numeral: "pad (numeral w) n = pad (pred_numeral w) (n div 10) @ [digit_char n]"
proof -
  have "numeral w = Suc (pred_numeral w)" by (rule numeral_eq_Suc)
  then show ?thesis by (simp only: pad.simps)
qed

lemma pad_one: "pad 1 n = [digit_char n]"
  by (simp only: One_nat_def pad.simps append_Nil)

lemma random_choice_in: "seq \<noteq> [] \<Longrightarrow> random_choice seq k \<in> set seq"
  unfolding random_choice_def randbelow_def by simp

lemma random_randint_range:
  "a \<le> b \<Longrightarrow> a \<le> random_randint a b k \<and> random_randint a b k \<le> b"
proof -
  assume ab: "a \<le> b"
  then have pos: "0 < nat (b + 1 - a)" by simp
  have "k mod nat (b + 1 - a) < nat (b + 1 - a)" using pos by (rule mod_less_divisor)
  then have "int (k mod nat (b + 1 - a)) < b + 1 - a" using ab by linarith
  then show ?thesis unfolding random_randint_def randbelow_def by simp
qed

lemma random_uniform_range:
  "a \<le> b \<Longrightarrow> 0 \<le> u \<Longrightarrow> u < 1 \<Longrightarrow> a \<le> random_uniform a b u \<and> random_uniform a b u \<le> b"
proof -
  assume ab: "a \<le> b" and u0: "0 \<le> u" and u1: "u < 1"
  have "0 \<le> (b - a) * u" using ab u0 by simp
  moreover have "(b - a) * u \<le> (b - a) * 1"
    using ab u1 by (intro mult_left_mono) simp_all
  ultimately show ?thesis unfolding random_uniform_def by simp
qed

lemma py_round_tenths: "\<exists>k::int. py_round x 1 = of_int k / 10 \<and> (of_int a / 10 \<le> x \<longrightarrow> a \<le> k) \<and> (x \<le> of_int b / 10 \<longrightarrow> k \<le> b)"
proof -
  let ?k = "round_half_even (x * 10 ^ 1)"
  have "py_round x 1 = of_int ?k / 10" unfolding py_round_def by simp
  moreover have "of_int a / 10 \<le> x \<longrightarrow> a \<le> ?k" by (simp add: round_half_even_lower)
  moreover have "x \<le> of_int b / 10 \<longrightarrow> ?k \<le> b" by (simp add: round_half_even_upper)
  ultimately show ?thesis by blast
qed

section \<open>The generated readings\<close>

lemma interior_fields:
  "map_of (generate_interior_reading dev rnd clk) ''unit'' = Some (VStr ''C'')"
  "map_of (generate_interior_reading dev rnd clk) ''uv_index'' = None"
  "map_of (generate_interior_reading dev rnd clk) ''humidity'' = Some (VNum (of_int (random_randint 30 70 (draw_humidity rnd))))"
  "map_of (generate_interior_reading dev rnd clk) ''light'' = Some (VNum (of_int (random_randint 100 500 (draw_light rnd))))"
  "map_of (generate_interior_reading dev rnd clk) ''temperature'' = Some (VNum (py_round (random_uniform 18 28 (unit_temperature rnd)) 1))"
  "map_of (generate_interior_reading dev rnd clk) ''location'' = Some (VStr (random_choice interior_locations (pick_location rnd)))"
  "map_of (generate_interior_reading dev rnd clk) ''device_id'' = Some (VStr (case dev of None \<Rightarrow> random_choice interior_sensors (pick_device rnd) | Some d \<Rightarrow> d))"
  unfolding generate_interior_reading_def dict_of_def Let_def interior_temp_range_def interior_humidity_range_def interior_light_range_def
  by simp_all

lemma exterior_fields:
  "map_of (generate_exterior_reading dev rnd clk) ''unit'' = Some (VStr ''F'')"
  "map_of (generate_exterior_reading dev rnd clk) ''humidity'' = None"
  "map_of (generate_exterior_reading dev rnd clk) ''uv_index'' = Some (VNum (py_round (random_uniform 0 11 (unit_uv rnd)) 1))"
  "map_of (generate_exterior_reading dev rnd clk) ''light'' = Some (VNum (of_int (random_randint 200 1000 (draw_light rnd))))"
  "map_of (generate_exterior_reading dev rnd clk) ''temperature'' = Some (VNum (celsius_to_fahrenheit (random_uniform 5 35 (unit_temperature rnd))))"
  "map_of (generate_exterior_reading dev rnd clk) ''device_id'' = Some (VStr (case dev of None \<Rightarrow> random_choice exterior_sensors (pick_device rnd) | Some d \<Rightarrow> d))"
  unfolding generate_exterior_reading_def dict_of_def Let_def exterior_temp_range_def uv_index_range_def exterior_light_range_def
  by simp_all

lemma tenths_in_range:
  assumes "of_int a / 10 \<le> x" "x \<le> of_int b / 10"
  shows "\<exists>k::int. py_round x 1 = of_int k / 10 \<and> a \<le> k \<and> k \<le> b"
  using py_round_tenths[of x a b] assms by blast

text \<open>
  Claim C4. A reading made by \<open>generate_interior_reading\<close> without a device id has unit
  \<open>C\<close>, an integer humidity between 30 and 70, no \<open>uv_index\<close>, a temperature that is a
  whole number of tenths between 18.0 and 28.0, an integer light between 100 and 500, a
  device id among \<open>sensor_01\<close>, \<open>sensor_03\<close>, \<open>sensor_05\<close> and a location among the four
  interior locations. The hypotheses are the contract of \<^verbatim>\<open>random.random()\<close>.
\<close>

theorem generate_interior_reading_shape:
  assumes "0 \<le> unit_temperature rnd" and "unit_temperature rnd < 1"
  shows "let r = generate_interior_reading None rnd clk in
      map_of r ''unit'' = Some (VStr ''C'')
    \<and> (\<exists>h::int. map_of r ''humidity'' = Some (VNum (of_int h)) \<and> 30 \<le> h \<and> h \<le> 70)
    \<and> map_of r ''uv_index'' = None
    \<and> (\<exists>k::int. map_of r ''temperature'' = Some (VNum (of_int k / 10)) \<and> 180 \<le> k \<and> k \<le> 280)
    \<and> (\<exists>l::int. map_of r ''light'' = Some (VNum (of_int l)) \<and> 100 \<le> l \<and> l \<le> 500)
    \<and> (\<exists>d. map_of r ''device_id'' = Some (VStr d)
            \<and> d \<in> {''sensor_01'', ''sensor_03'', ''sensor_05''})
    \<and> (\<exists>p. map_of r ''location'' = Some (VStr p)
            \<and> p \<in> {''Sala 1'', ''Sala 2'', ''Oficina A'', ''Oficina B''})"
proof -
  let ?r = "generate_interior_reading None rnd clk"
  have hum: "\<exists>h::int. map_of ?r ''humidity'' = Some (VNum (of_int h)) \<and> 30 \<le> h \<and> h \<le> 70"
    using random_randint_range[of 30 70 "draw_humidity rnd"] by (simp add: interior_fields)
  have light: "\<exists>l::int. map_of ?r ''light'' = Some (VNum (of_int l)) \<and> 100 \<le> l \<and> l \<le> 500"
    using random_randint_range[of 100 500 "draw_light rnd"] by (simp add: interior_fields)
  have "18 \<le> random_uniform 18 28 (unit_temperature rnd)
      \<and> random_uniform 18 28 (unit_temperature rnd) \<le> 28"
    using assms by (intro random_uniform_range) simp_all
  then have "\<exists>k::int. py_round (random_uniform 18 28 (unit_temperature rnd)) 1 = of_int k / 10
      \<and> 180 \<le> k \<and> k \<le> 280"
    by (intro tenths_in_range) simp_all
  then have temp: "\<exists>k::int. map_of ?r ''temperature'' = Some (VNum (of_int k / 10))
      \<and> 180 \<le> k \<and> k \<le> 280"
    by (simp add: interior_fields)
  have "random_choice interior_sensors (pick_device rnd) \<in> set interior_sensors"
    by (rule random_choice_in) (simp add: interior_sensors_def)
  then have dev: "\<exists>d. map_of ?r ''device_id'' = Some (VStr d)
      \<and> d \<in> {''sensor_01'', ''sensor_03'', ''sensor_05''}"
    by (simp add: interior_fields interior_sensors_def)
  have "random_choice interior_locations (pick_location rnd) \<in> set interior_locations"
    by (rule random_choice_in) (simp add: interior_locations_def)
  then have loc: "\<exists>p. map_of ?r ''location'' = Some (VStr p)
      \<and> p \<in> {''Sala 1'', ''Sala 2'', ''Oficina A'', ''Oficina B''}"
    by (simp add: interior_fields interior_locations_def)
  show ?thesis unfolding Let_def
    using hum light temp dev loc interior_fields(1,2)[of None rnd clk] by blast
qed

lemma sample_timestamp:
  "isoformat_utc (datetime_now_utc sample_clock) = ''2026-11-04T09:30:00+00:00''"
  by (simp add: isoformat_utc_def isoformat_def datetime_now_utc_def sample_clock_def
      pad_numeral digit_char_def)

lemma sample_interior_reading:
  "generate_interior_reading None sample_draws sample_clock
   = [(''device_id'', VStr ''sensor_03''), (''type'', VStr ''interior''),
      (''temperature'', VNum 23), (''humidity'', VNum 34), (''light'', VNum 298),
      (''unit'', VStr ''C''), (''location'', VStr ''Oficina A''),
      (''timestamp'', VStr ''2026-11-04T09:30:00+00:00'')]"
  by (simp add: generate_interior_reading_def dict_of_def interior_temp_range_def
      interior_humidity_range_def interior_light_range_def sample_draws_def
      interior_sensors_def interior_locations_def random_choice_def randbelow_def
      random_randint_def random_uniform_def py_round_def round_half_even_def
      sample_timestamp)

theorem generate_interior_reading_shape_witness:
  "0 \<le> unit_temperature sample_draws \<and> unit_temperature sample_draws < 1 \<and>
   (let r = generate_interior_reading None sample_draws sample_clock in
      map_of r ''unit'' = Some (VStr ''C'')
    \<and> (\<exists>h::int. map_of r ''humidity'' = Some (VNum (of_int h)) \<and> 30 \<le> h \<and> h \<le> 70)
    \<and> map_of r ''uv_index'' = None
    \<and> (\<exists>k::int. map_of r ''temperature'' = Some (VNum (of_int k / 10)) \<and> 180 \<le> k \<and> k \<le> 280)
    \<and> (\<exists>l::int. map_of r ''light'' = Some (VNum (of_int l)) \<and> 100 \<le> l \<and> l \<le> 500)
    \<and> (\<exists>d. map_of r ''device_id'' = Some (VStr d)
            \<and> d \<in> {''sensor_01'', ''sensor_03'', ''sensor_05''})
    \<and> (\<exists>p. map_of r ''location'' = Some (VStr p)
            \<and> p \<in> {''Sala 1'', ''Sala 2'', ''Oficina A'', ''Oficina B''}))"
proof -
  have h1: "0 \<le> unit_temperature sample_draws" by (simp add: sample_draws_def)
  have h2: "unit_temperature sample_draws < 1" by (simp add: sample_draws_def)
  show ?thesis
    using h1 h2 generate_interior_reading_shape [OF h1 h2, of sample_clock] by blast
qed

lemma celsius_equivalent:
  assumes "5 \<le> c" "c \<le> 35"
  shows "\<exists>k::int. celsius_to_fahrenheit c = of_int k / 10 \<and> 410 \<le> k \<and> k \<le> 950"
    and "5 \<le> (celsius_to_fahrenheit c - 32) / 1.8"
    and "(celsius_to_fahrenheit c - 32) / 1.8 \<le> 35"
    and "\<bar>(celsius_to_fahrenheit c - 32) / 1.8 - c\<bar> \<le> 1 / 36"
proof -
  let ?x = "c * 9 / 5 + 32"
  have lo: "of_int 410 / 10 \<le> ?x" using assms by simp
  have hi: "?x \<le> of_int 950 / 10" using assms by simp
  show k: "\<exists>k::int. celsius_to_fahrenheit c = of_int k / 10 \<and> 410 \<le> k \<and> k \<le> 950"
    unfolding celsius_to_fahrenheit_def using tenths_in_range[OF lo hi] .
  then obtain k :: int where kk: "celsius_to_fahrenheit c = of_int k / 10" "410 \<le> k" "k \<le> 950"
    by blast
  have "(410::real) \<le> of_int k" "of_int k \<le> (950::real)" using kk(2,3) by simp_all
  then show "5 \<le> (celsius_to_fahrenheit c - 32) / 1.8" "(celsius_to_fahrenheit c - 32) / 1.8 \<le> 35"
    unfolding kk(1) by simp_all
  have "\<bar>py_round ?x 1 - ?x\<bar> \<le> 1 / (2 * 10 ^ 1)" by (rule py_round_near)
  then have d: "\<bar>celsius_to_fahrenheit c - ?x\<bar> \<le> 1 / 20"
    unfolding celsius_to_fahrenheit_def by simp
  have e: "(celsius_to_fahrenheit c - 32) / 1.8 - c = (celsius_to_fahrenheit c - ?x) / 1.8"
    by (simp add: field_simps)
  have "\<bar>(celsius_to_fahrenheit c - 32) / 1.8 - c\<bar>
      = \<bar>celsius_to_fahrenheit c - ?x\<bar> / \<bar>1.8::real\<bar>"
    unfolding e abs_divide ..
  also have "\<dots> \<le> (1 / 20) / \<bar>1.8::real\<bar>" using d by (rule divide_right_mono) simp
  also have "\<dots> = 1 / 36" by simp
  finally show "\<bar>(celsius_to_fahrenheit c - 32) / 1.8 - c\<bar> \<le> 1 / 36" .
qed

text \<open>
  Claim C5. A reading made by \<open>generate_exterior_reading\<close> without a device id has unit
  \<open>F\<close>, a \<open>uv_index\<close> that is a whole number of tenths between 0.0 and 11.0, no humidity,
  and a temperature \<open>round(c * 9/5 + 32, 1)\<close> for a Celsius value \<open>c\<close> between 5 and 35, so
  that \<open>(F - 32) / 1.8\<close> lies between 5 and 35 and within 1/36 of \<open>c\<close>; its light is an
  integer between 200 and 1000 and its device id is among \<open>sensor_02\<close>, \<open>sensor_04\<close>,
  \<open>sensor_06\<close>. The hypotheses are the contract of \<^verbatim>\<open>random.random()\<close>.
\<close>

theorem generate_exterior_reading_shape:
  assumes "0 \<le> unit_temperature rnd" and "unit_temperature rnd < 1"
    and "0 \<le> unit_uv rnd" and "unit_uv rnd < 1"
  shows "let r = generate_exterior_reading None rnd clk in
      map_of r ''unit'' = Some (VStr ''F'')
    \<and> (\<exists>u::int. map_of r ''uv_index'' = Some (VNum (of_int u / 10)) \<and> 0 \<le> u \<and> u \<le> 110)
    \<and> map_of r ''humidity'' = None
    \<and> (\<exists>c f. 5 \<le> c \<and> c \<le> 35 \<and> f = py_round (c * 9 / 5 + 32) 1
            \<and> map_of r ''temperature'' = Some (VNum f)
            \<and> 5 \<le> (f - 32) / 1.8 \<and> (f - 32) / 1.8 \<le> 35
            \<and> \<bar>(f - 32) / 1.8 - c\<bar> \<le> 1 / 36)
    \<and> (\<exists>l::int. map_of r ''light'' = Some (VNum (of_int l)) \<and> 200 \<le> l \<and> l \<le> 1000)
    \<and> (\<exists>d. map_of r ''device_id'' = Some (VStr d)
            \<and> d \<in> {''sensor_02'', ''sensor_04'', ''sensor_06''})"
proof -
  let ?r = "generate_exterior_reading None rnd clk"
  let ?c = "random_uniform 5 35 (unit_temperature rnd)"
  have light: "\<exists>l::int. map_of ?r ''light'' = Some (VNum (of_int l)) \<and> 200 \<le> l \<and> l \<le> 1000"
    using random_randint_range[of 200 1000 "draw_light rnd"] by (simp add: exterior_fields)
  have "0 \<le> random_uniform 0 11 (unit_uv rnd) \<and> random_uniform 0 11 (unit_uv rnd) \<le> 11"
    using assms by (intro random_uniform_range) simp_all
  then have "\<exists>u::int. py_round (random_uniform 0 11 (unit_uv rnd)) 1 = of_int u / 10
      \<and> 0 \<le> u \<and> u \<le> 110"
    by (intro tenths_in_range) simp_all
  then have uv: "\<exists>u::int. map_of ?r ''uv_index'' = Some (VNum (of_int u / 10))
      \<and> 0 \<le> u \<and> u \<le> 110"
    by (simp add: exterior_fields)
  have c: "5 \<le> ?c \<and> ?c \<le> 35"
    using assms by (intro random_uniform_range) simp_all
  then have c1: "5 \<le> ?c" and c2: "?c \<le> 35" by simp_all
  have temp: "\<exists>c f. 5 \<le> c \<and> c \<le> 35 \<and> f = py_round (c * 9 / 5 + 32) 1
            \<and> map_of ?r ''temperature'' = Some (VNum f)
            \<and> 5 \<le> (f - 32) / 1.8 \<and> (f - 32) / 1.8 \<le> 35
            \<and> \<bar>(f - 32) / 1.8 - c\<bar> \<le> 1 / 36"
    using c1 c2 celsius_equivalent(2,3,4)[OF c1 c2] exterior_fields(5)[of None rnd clk]
    unfolding celsius_to_fahrenheit_def by blast
  have "random_choice exterior_sensors (pick_device rnd) \<in> set exterior_sensors"
    by (rule random_choice_in) (simp add: exterior_sensors_def)
  then have dev: "\<exists>d. map_of ?r ''device_id'' = Some (VStr d)
      \<and> d \<in> {''sensor_02'', ''sensor_04'', ''sensor_06''}"
    by (simp add: exterior_fields exterior_sensors_def)
  show ?thesis unfolding Let_def
    using light uv temp dev exterior_fields(1,2)[of None rnd clk] by blast
qed

lemma sample_exterior_reading:
  "generate_exterior_reading None sample_draws sample_clock
   = [(''device_id'', VStr ''sensor_04''), (''type'', VStr ''exterior''),
      (''temperature'', VNum 68), (''light'', VNum 399), (''uv_index'', VNum (17 / 2)),
      (''unit'', VStr ''F''), (''location'', VStr ''Terraza''),
      (''timestamp'', VStr ''2026-11-04T09:30:00+00:00'')]"
  by (simp add: generate_exterior_reading_def dict_of_def exterior_temp_range_def
      uv_index_range_def exterior_light_range_def sample_draws_def
      exterior_sensors_def exterior_locations_def random_choice_def randbelow_def
      random_randint_def random_uniform_def py_round_def round_half_even_def
      celsius_to_fahrenheit_def sample_timestamp)

theorem generate_exterior_reading_shape_witness:
  "0 \<le> unit_temperature sample_draws \<and> unit_temperature sample_draws < 1 \<and>
   0 \<le> unit_uv sample_draws \<and> unit_uv sample_draws < 1 \<and>
   (let r = generate_exterior_reading None sample_draws sample_clock in
      map_of r ''unit'' = Some (VStr ''F'')
    \<and> (\<exists>u::int. map_of r ''uv_index'' = Some (VNum (of_int u / 10)) \<and> 0 \<le> u \<and> u \<le> 110)
    \<and> map_of r ''humidity'' = None
    \<and> (\<exists>c f. 5 \<le> c \<and> c \<le> 35 \<and> f = py_round (c * 9 / 5 + 32) 1
            \<and> map_of r ''temperature'' = Some (VNum f)
            \<and> 5 \<le> (f - 32) / 1.8 \<and> (f - 32) / 1.8 \<le> 35
            \<and> \<bar>(f - 32) / 1.8 - c\<bar> \<le> 1 / 36)
    \<and> (\<exists>l::int. map_of r ''light'' = Some (VNum (of_int l)) \<and> 200 \<le> l \<and> l \<le> 1000)
    \<and> (\<exists>d. map_of r ''device_id'' = Some (VStr d)
            \<and> d \<in> {''sensor_02'', ''sensor_04'', ''sensor_06''}))"
proof -
  have h1: "0 \<le> unit_temperature sample_draws" by (simp add: sample_draws_def)
  have h2: "unit_temperature sample_draws < 1" by (simp add: sample_draws_def)
  have h3: "0 \<le> unit_uv sample_draws" by (simp add: sample_draws_def)
  have h4: "unit_uv sample_draws < 1" by (simp add: sample_draws_def)
  show ?thesis
    using h1 h2 h3 h4 generate_exterior_reading_shape [OF h1 h2 h3 h4, of sample_clock]
    by blast
qed

text \<open>
  Claim C10. A device id passed to either generator is the \<open>device_id\<close> of the reading,
  whatever string it is: in particular \<open>sensor_99\<close>, which is in neither pool, is returned
  as it is. Only a reading generated without the argument is sure to carry a device id of
  its family's pool.
\<close>

theorem device_id_verbatim:
  "map_of (generate_interior_reading (Some d) rnd clk) ''device_id'' = Some (VStr d)
   \<and> map_of (generate_exterior_reading (Some d) rnd clk) ''device_id'' = Some (VStr d)
   \<and> ''sensor_99'' \<notin> set interior_sensors \<union> set exterior_sensors
   \<and> map_of (generate_interior_reading (Some ''sensor_99'') rnd clk) ''device_id''
       = Some (VStr ''sensor_99'')
   \<and> map_of (generate_exterior_reading (Some ''sensor_99'') rnd clk) ''device_id''
       = Some (VStr ''sensor_99'')
   \<and> (\<exists>i. map_of (generate_interior_reading None rnd clk) ''device_id'' = Some (VStr i)
          \<and> i \<in> set interior_sensors)
   \<and> (\<exists>e. map_of (generate_exterior_reading None rnd clk) ''device_id'' = Some (VStr e)
          \<and> e \<in> set exterior_sensors)"
proof -
  have "random_choice interior_sensors (pick_device rnd) \<in> set interior_sensors"
    by (rule random_choice_in) (simp add: interior_sensors_def)
  moreover have "random_choice exterior_sensors (pick_device rnd) \<in> set exterior_sensors"
    by (rule random_choice_in) (simp add: exterior_sensors_def)
  moreover have "''sensor_99'' \<notin> set interior_sensors \<union> set exterior_sensors"
    by (simp add: interior_sensors_def exterior_sensors_def)
  ultimately show ?thesis by (simp add: interior_fields exterior_fields)
qed

theorem device_id_verbatim_witness:
  "map_of (generate_interior_reading (Some ''probe'') sample_draws sample_clock) ''device_id''
     = Some (VStr ''probe'')
   \<and> map_of (generate_exterior_reading (Some ''probe'') sample_draws sample_clock) ''device_id''
     = Some (VStr ''probe'')
   \<and> ''probe'' \<notin> set interior_sensors \<union> set exterior_sensors"
proof -
  have "''probe'' \<notin> set interior_sensors \<union> set exterior_sensors"
    by (simp add: interior_sensors_def exterior_sensors_def)
  then show ?thesis
    using device_id_verbatim [of "''probe''" sample_draws sample_clock] by blast
qed

section \<open>Outlier detection: properties\<close>

lemma map_of_filter_key:
  "map_of (filter (\<lambda>(k, v). P k) d) k = (if P k then map_of d k else None)"
  by (induction d) auto

lemma map_of_project_fields:
  "k \<in> set keys \<Longrightarrow> map_of (project_fields keys d) k = map_of d k"
  unfolding project_fields_def by (simp add: map_of_filter_key)

lemma dict_get_project_fields:
  "k \<in> set keys \<Longrightarrow> dict_get (project_fields keys d) k = dict_get d k"
  unfolding dict_get_def by (simp add: map_of_project_fields)

lemma normalized_project_fields:
  "''unit'' \<in> set keys \<Longrightarrow> normalized field (project_fields keys d) v = normalized field d v"
  unfolding normalized_def by (simp add: dict_get_project_fields)

lemma outlier_doc_project_fields:
  assumes "''device_id'' \<in> set keys" "''type'' \<in> set keys" "''timestamp'' \<in> set keys"
    "''unit'' \<in> set keys"
  shows "outlier_doc field (project_fields keys d) v x z m sd = outlier_doc field d v x z m sd"
  unfolding outlier_doc_def using assms by (simp only: dict_get_project_fields)

lemma collect_values_project_fields:
  assumes "field \<in> set keys" "''unit'' \<in> set keys"
  shows "collect_values field (map (project_fields keys) docs) = collect_values field docs"
  using assms
  by (induction docs)
     (simp_all add: map_of_project_fields normalized_project_fields split: option.splits)

lemma find_outliers_project_fields:
  assumes "field \<in> set keys" "''device_id'' \<in> set keys" "''type'' \<in> set keys"
    "''timestamp'' \<in> set keys" "''unit'' \<in> set keys"
  shows "find_outliers field thr m sd (map (project_fields keys) docs)
       = find_outliers field thr m sd docs"
  using assms
  by (induction docs)
     (simp_all add: map_of_project_fields normalized_project_fields outlier_doc_project_fields
        split: option.splits cong: if_cong)

lemma nums_of_numbers: "nums_of (map VNum xs) = Inr xs"
  by (induction xs) (simp_all add: bind_result_def)

lemma reading_value_numeric:
  "map_of r field = Some (VNum x) \<Longrightarrow>
   \<exists>y. normalized field r (VNum x) = Inr (VNum y) \<and> reading_value field r = Some y"
proof (cases "field = ''temperature'' \<and> dict_get r ''unit'' = VStr ''F''")
  case True
  assume "map_of r field = Some (VNum x)"
  then show ?thesis using True unfolding reading_value_def normalized_def
    by (intro exI[of _ "(x - 32) / 1.8"]) simp
next
  case False
  assume "map_of r field = Some (VNum x)"
  then show ?thesis using False unfolding reading_value_def normalized_def by auto
qed

lemma collect_values_numeric:
  "numeric_field field docs \<Longrightarrow>
   collect_values field docs = Inr (map VNum (field_values field docs))"
proof (induction docs)
  case Nil
  then show ?case by (simp add: field_values_def)
next
  case (Cons r docs)
  then have nf: "numeric_field field docs" by (simp add: numeric_field_def)
  note IH = Cons.IH[OF nf]
  show ?case
  proof (cases "map_of r field")
    case None
    then show ?thesis using IH
      by (simp add: field_values_def reading_value_def)
  next
    case (Some v)
    then obtain x where v: "v = VNum x" using Cons.prems
      by (cases v) (simp_all add: numeric_field_def)
    from reading_value_numeric[OF Some[unfolded v]] obtain y where
      y: "normalized field r (VNum x) = Inr (VNum y)" "reading_value field r = Some y" by blast
    show ?thesis using Some v y IH
      by (simp add: field_values_def bind_result_def)
  qed
qed

lemma find_outliers_numeric:
  assumes "numeric_field field docs" and "0 < sd"
  shows "find_outliers field thr m sd docs = Inr (List.map_filter (outlier_of field thr m sd) docs)"
  using assms(1)
proof (induction docs)
  case Nil
  then show ?case by (simp add:)
next
  case (Cons r docs)
  then have nf: "numeric_field field docs" by (simp add: numeric_field_def)
  note IH = Cons.IH[OF nf]
  show ?case
  proof (cases "map_of r field")
    case None
    then show ?thesis using IH by (simp add: outlier_of_def)
  next
    case (Some v)
    then obtain x where v: "v = VNum x" using Cons.prems
      by (cases v) (simp_all add: numeric_field_def)
    from reading_value_numeric[OF Some[unfolded v]] obtain y where
      y: "normalized field r (VNum x) = Inr (VNum y)" "reading_value field r = Some y" by blast
    have q: "\<bar>sd\<bar> = sd" using assms(2) by simp
    have d: "py_div (y - m) sd = Inr ((y - m) / sd)" using assms(2) by (simp add: py_div_def)
    show ?thesis using Some v y IH d q
      by (simp add: bind_result_def outlier_of_def)
  qed
qed

lemma set_sort_reverse: "set (sort_reverse k xs) = set xs"
  unfolding sort_reverse_def by simp


lemma sorted_sort_reverse: "sorted_wrt (\<lambda>a b. k b \<le> k a) (sort_reverse k xs)"
proof -
  have "sorted (map k (sort_key k (rev xs)))" by (rule sorted_sort_key)
  then have "sorted_wrt (\<lambda>a b. k a \<le> k b) (sort_key k (rev xs))"
    by (simp add: sorted_wrt_map)
  then show ?thesis unfolding sort_reverse_def by (simp add: sorted_wrt_rev)
qed

lemma map_of_dict_of_snoc:
  "map_of (dict_of (kvs @ [(k, v)])) = (map_of (dict_of kvs))(k \<mapsto> v)"
  unfolding dict_of_def by (simp add: update_conv')

lemma map_of_dict_of_Nil: "map_of (dict_of []) = Map.empty"
  unfolding dict_of_def by simp

lemma outlier_doc_attached:
  "map_of (outlier_doc field r raw v z m sd) ''z_score'' = Some (VNum (py_round z 3))"
  "map_of (outlier_doc field r raw v z m sd) ''mean'' = Some (VNum (py_round m 2))"
  "map_of (outlier_doc field r raw v z m sd) ''std_dev'' = Some (VNum (py_round sd 2))"
proof -
  let ?kvs = "[(''device_id'', dict_get r ''device_id''), (''type'', dict_get r ''type''),
        (''timestamp'', dict_get r ''timestamp''), (field, raw), (''unit'', dict_get r ''unit'')]"
  have e: "outlier_doc field r raw v z m sd =
    dict_of (((((?kvs @ [(''z_score'', VNum (py_round z 3))])
       @ [(''value_celsius'', VNum (if field = ''temperature'' then py_round v 2 else v))])
       @ [(''mean'', VNum (py_round m 2))]) @ [(''std_dev'', VNum (py_round sd 2))]))"
    unfolding outlier_doc_def by simp
  show "map_of (outlier_doc field r raw v z m sd) ''z_score'' = Some (VNum (py_round z 3))"
    "map_of (outlier_doc field r raw v z m sd) ''mean'' = Some (VNum (py_round m 2))"
    "map_of (outlier_doc field r raw v z m sd) ''std_dev'' = Some (VNum (py_round sd 2))"
    unfolding e map_of_dict_of_snoc by simp_all
qed

lemma z_score_of_outlier_doc: "z_score_of (outlier_doc field r raw v z m sd) = py_round z 3"
  unfolding z_score_of_def by (simp add: outlier_doc_attached)

lemma sum_list_squares_nonneg: "0 \<le> (\<Sum>x \<leftarrow> xs. (x - (m::real))\<^sup>2)"
  by (rule sum_list_nonneg) auto

lemma stdev_of_nonneg: "0 \<le> stdev_of xs"
  unfolding stdev_of_def using sum_list_squares_nonneg[of "mean_of xs" xs] by simp





lemma detect_outliers_body_stored:
  assumes "fault coll = None"
  shows "detect_outliers_body coll field thr =
     (if stored coll = [] then Inr []
      else bind_result (collect_values field (stored coll)) (\<lambda>values.
        if length values < 2 then Inr []
        else bind_result (statistics_mean values) (\<lambda>mean.
             bind_result (statistics_stdev values) (\<lambda>std_dev.
               if std_dev = 0 then Inr []
               else bind_result (find_outliers field thr mean std_dev (stored coll))
                      (\<lambda>outliers. Inr (sort_reverse z_score_of outliers))))))"
proof -
  let ?keys = "[field, ''device_id'', ''type'', ''timestamp'', ''unit'']"
  have c: "collect_values field (map (project_fields ?keys) (stored coll))
      = collect_values field (stored coll)"
    by (rule collect_values_project_fields) simp_all
  have f: "\<And>m sd. find_outliers field thr m sd (map (project_fields ?keys) (stored coll))
      = find_outliers field thr m sd (stored coll)"
    by (rule find_outliers_project_fields) simp_all
  show ?thesis
    unfolding detect_outliers_body_def collection_find_def
    using assms by (simp add: bind_result_def c f split: sum.splits)
qed

lemma detect_outliers_body_numeric:
  assumes "fault coll = None" and "numeric_field field (stored coll)"
  shows "detect_outliers_body coll field thr =
     Inr (let xs = field_values field (stored coll) in
          if length xs < 2 \<or> stdev_of xs = 0 then []
          else sort_reverse z_score_of
                 (List.map_filter (outlier_of field thr (mean_of xs) (stdev_of xs))
                    (stored coll)))"
proof -
  let ?xs = "field_values field (stored coll)"
  have cv: "collect_values field (stored coll) = Inr (map VNum ?xs)"
    using assms(2) by (rule collect_values_numeric)
  show ?thesis
  proof (cases "length ?xs < 2")
    case True
    then show ?thesis
      unfolding detect_outliers_body_stored[OF assms(1)] cv
      by (simp add: bind_result_def)
  next
    case False
    then have ne: "stored coll \<noteq> []" by (auto simp: field_values_def)
    have "?xs \<noteq> []" using False by auto
    then have m: "statistics_mean (map VNum ?xs) = Inr (mean_of ?xs)"
      by (simp add: statistics_mean_def nums_of_numbers bind_result_def)
    have s: "statistics_stdev (map VNum ?xs) = Inr (stdev_of ?xs)"
      using False by (simp add: statistics_stdev_def nums_of_numbers bind_result_def)
    show ?thesis
    proof (cases "stdev_of ?xs = 0")
      case True
      then show ?thesis
        unfolding detect_outliers_body_stored[OF assms(1)] cv
        using False ne m s by (simp add: bind_result_def)
    next
      case nz: False
      then have pos: "0 < stdev_of ?xs" using stdev_of_nonneg[of ?xs] by simp
      have fo: "find_outliers field thr (mean_of ?xs) (stdev_of ?xs) (stored coll)
          = Inr (List.map_filter (outlier_of field thr (mean_of ?xs) (stdev_of ?xs)) (stored coll))"
        using assms(2) pos by (rule find_outliers_numeric)
      show ?thesis
        unfolding detect_outliers_body_stored[OF assms(1)] cv
        using False ne m s nz fo by (simp add: bind_result_def Let_def)
    qed
  qed
qed












section \<open>Outlier detection on examples\<close>

lemma round_half_even_eq:
  assumes "of_int k - 1 / 2 < x" and "x < of_int k + 1 / 2"
  shows "round_half_even x = k"
proof -
  have n: "\<bar>of_int (round_half_even x) - x\<bar> \<le> 1 / 2" by (rule round_half_even_near)
  have "\<bar>of_int (round_half_even x) - (of_int k :: real)\<bar> < 1"
    using n assms by linarith
  then have "\<bar>round_half_even x - k\<bar> < 1"
    by (metis of_int_abs of_int_diff of_int_less_1_iff)
  then show ?thesis by simp
qed

lemma py_round_eq:
  assumes "of_int k - 1 / 2 < x * 10 ^ n" and "x * 10 ^ n < of_int k + 1 / 2"
  shows "py_round x n = of_int k / 10 ^ n"
  unfolding py_round_def using round_half_even_eq[OF assms] by simp









lemma example_mean: "mean_of example_vector = 28"
  by (simp add: example_vector_def mean_of_def)

lemma example_stdev: "stdev_of example_vector = sqrt 1620"
  by (simp add: example_vector_def stdev_of_def mean_of_def)

lemma sqrt_1620_bounds: "8049 / 200 < sqrt 1620" "sqrt 1620 < 161 / 4"
proof -
  show "8049 / 200 < sqrt 1620" by (rule real_less_rsqrt) (simp add: power2_eq_square)
  show "sqrt 1620 < 161 / 4" by (rule real_less_lsqrt) (simp_all add: power2_eq_square)
qed

lemma example_stdev_rounded: "py_round (sqrt 1620) 2 = 161 / 4"
proof -
  have "py_round (sqrt 1620) 2 = of_int 4025 / 10 ^ 2"
    using sqrt_1620_bounds by (intro py_round_eq) simp_all
  then show ?thesis by simp
qed

lemma example_z_bounds: "17888 / 10000 < 72 / sqrt 1620" "72 / sqrt 1620 < 17891 / 10000"
proof -
  have pos: "0 < sqrt 1620" by simp
  show "17888 / 10000 < 72 / sqrt 1620"
    using sqrt_1620_bounds(2) pos by (simp add: pos_less_divide_eq)
  show "72 / sqrt 1620 < 17891 / 10000"
    using sqrt_1620_bounds(1) pos by (simp add: pos_divide_less_eq)
qed

lemma example_z_rounded:
  "py_round (72 / sqrt 1620) 3 = 1789 / 1000" "py_round (72 / sqrt 1620) 1 = 9 / 5"
proof -
  have "py_round (72 / sqrt 1620) 3 = of_int 1789 / 10 ^ 3"
    using example_z_bounds by (intro py_round_eq) simp_all
  then show "py_round (72 / sqrt 1620) 3 = 1789 / 1000" by simp
  have "py_round (72 / sqrt 1620) 1 = of_int 18 / 10 ^ 1"
    using example_z_bounds by (intro py_round_eq) simp_all
  then show "py_round (72 / sqrt 1620) 1 = 9 / 5" by simp
qed

lemma example_values:
  "field_values ''temperature'' (stored (example_collection example_vector)) = example_vector"
  by (simp add: example_collection_def example_vector_def field_values_def reading_value_def
      normalized_def celsius_reading_def dict_get_def)

lemma example_not_flagged:
  "outlier_of ''temperature'' (5 / 2) 28 (sqrt 1620) (celsius_reading 10) = None"
  "outlier_of ''temperature'' (5 / 2) 28 (sqrt 1620) (celsius_reading 100) = None"
proof -
  have pos: "0 < sqrt 1620" by simp
  have a: "\<not> 5 / 2 < 18 / sqrt 1620"
    using sqrt_1620_bounds(1) pos by (simp add: pos_less_divide_eq)
  have b: "\<not> 5 / 2 < 72 / sqrt 1620"
    using example_z_bounds(2) by simp
  show "outlier_of ''temperature'' (5 / 2) 28 (sqrt 1620) (celsius_reading 10) = None"
    using a
    by (simp add: outlier_of_def reading_value_def normalized_def celsius_reading_def dict_get_def)
  show "outlier_of ''temperature'' (5 / 2) 28 (sqrt 1620) (celsius_reading 100) = None"
    using b
    by (simp add: outlier_of_def reading_value_def normalized_def celsius_reading_def dict_get_def)
qed

lemma example_run:
  "detect_outliers (Some (example_collection example_vector)) ''temperature'' (5 / 2) = Inr []"
proof -
  let ?c = "example_collection example_vector"
  have f: "fault ?c = None" by (simp add: example_collection_def)
  have n: "numeric_field ''temperature'' (stored ?c)"
    by (simp add: example_collection_def example_vector_def numeric_field_def celsius_reading_def)
  have st: "stored ?c = map celsius_reading [10, 10, 10, 10, 100]"
    by (simp add: example_collection_def example_vector_def)
  have "List.map_filter (outlier_of ''temperature'' (5 / 2) 28 (sqrt 1620)) (stored ?c) = []"
    unfolding st by (simp add: List.map_filter_def example_not_flagged)
  then show ?thesis
    by (simp add: detect_outliers_def except_return_empty_def
        detect_outliers_body_numeric[OF f n] Let_def example_values example_mean example_stdev
        sort_reverse_def)
qed

text \<open>
  Claim C3, as stated, fails on the standard deviation: for the vector 10, 10, 10, 10, 100
  the sample standard deviation is not 40.12 to two decimals, it is more than 0.1 away.
\<close>

theorem example_stdev_counterexample:
  "statistics_stdev (map VNum example_vector) = Inr (stdev_of example_vector)
   \<and> py_round (stdev_of example_vector) 2 \<noteq> 4012 / 100
   \<and> \<not> \<bar>stdev_of example_vector - 4012 / 100\<bar> \<le> 1 / 10"
proof -
  have "statistics_stdev (map VNum example_vector) = Inr (stdev_of example_vector)"
    by (simp add: statistics_stdev_def nums_of_numbers bind_result_def example_vector_def)
  moreover have "py_round (stdev_of example_vector) 2 \<noteq> 4012 / 100"
    by (simp add: example_stdev example_stdev_rounded)
  moreover have "\<not> \<bar>stdev_of example_vector - 4012 / 100\<bar> \<le> 1 / 10"
    using sqrt_1620_bounds(1) by (simp add: example_stdev)
  ultimately show ?thesis by blast
qed

text \<open>
  Claim C3, amended. On the Celsius vector 10, 10, 10, 10, 100 the statistics used by
  \<open>detect_outliers\<close> are the mean 28 and the sample standard deviation (dividing by
  \<open>n - 1\<close>) \<open>sqrt 1620\<close>, which is 40.25 to two decimals; the value 100 has the z-score
  \<open>72 / sqrt 1620\<close>, 1.789 to three decimals and 1.8 to one; with the threshold 2.5 no
  value of the vector is flagged.
\<close>

theorem example_statistics:
  "statistics_mean (map VNum example_vector) = Inr 28
   \<and> statistics_stdev (map VNum example_vector) = Inr (sqrt 1620)
   \<and> sqrt 1620 = sqrt ((\<Sum>x \<leftarrow> example_vector. (x - 28)\<^sup>2) / real (length example_vector - 1))
   \<and> py_round (sqrt 1620) 2 = 4025 / 100
   \<and> reading_value ''temperature'' (celsius_reading 100) = Some 100
   \<and> \<bar>100 - 28\<bar> / sqrt 1620 = 72 / sqrt 1620
   \<and> py_round (72 / sqrt 1620) 3 = 1789 / 1000
   \<and> py_round (72 / sqrt 1620) 1 = 18 / 10
   \<and> detect_outliers (Some (example_collection example_vector)) ''temperature'' (25 / 10)
       = Inr []"
proof -
  have "statistics_mean (map VNum example_vector) = Inr (mean_of example_vector)"
    by (simp add: statistics_mean_def nums_of_numbers bind_result_def example_vector_def)
  then have m: "statistics_mean (map VNum example_vector) = Inr 28"
    by (simp add: example_mean)
  have "statistics_stdev (map VNum example_vector) = Inr (stdev_of example_vector)"
    by (simp add: statistics_stdev_def nums_of_numbers bind_result_def example_vector_def)
  then have s: "statistics_stdev (map VNum example_vector) = Inr (sqrt 1620)"
    by (simp add: example_stdev)
  have d: "sqrt 1620
      = sqrt ((\<Sum>x \<leftarrow> example_vector. (x - 28)\<^sup>2) / real (length example_vector - 1))"
    by (simp add: example_vector_def)
  have r: "reading_value ''temperature'' (celsius_reading 100) = Some 100"
    by (simp add: reading_value_def normalized_def celsius_reading_def dict_get_def)
  have run: "detect_outliers (Some (example_collection example_vector)) ''temperature'' (25 / 10)
       = Inr []"
    using example_run by simp
  show ?thesis using m s d r run example_stdev_rounded example_z_rounded by simp
qed

section \<open>The per-sensor count: properties\<close>

lemma sum_list_insort_key:
  "sum_list (map f (insort_key k x xs)) = f x + sum_list (map (f :: 'a \<Rightarrow> real) xs)"
  by (induction xs) simp_all

lemma sum_list_sort_key:
  "sum_list (map f (sort_key k xs)) = sum_list (map (f :: 'a \<Rightarrow> real) xs)"
  by (induction xs) (simp_all add: sum_list_insort_key)

lemma sum_list_sort_reverse:
  "sum_list (map f (sort_reverse k xs)) = sum_list (map (f :: 'a \<Rightarrow> real) xs)"
proof -
  have "sum_list (map f (sort_reverse k xs)) = sum_list (rev (map f (sort_key k (rev xs))))"
    unfolding sort_reverse_def by (simp add: rev_map)
  also have "\<dots> = sum_list (map f (sort_key k (rev xs)))" by (rule sum_list_rev)
  also have "\<dots> = sum_list (map f (rev xs))" by (rule sum_list_sort_key)
  also have "\<dots> = sum_list (rev (map f xs))" by (simp add: rev_map)
  also have "\<dots> = sum_list (map f xs)" by (rule sum_list_rev)
  finally show ?thesis .
qed

lemma sum_list_indicator:
  "distinct ks \<Longrightarrow> (\<Sum>k \<leftarrow> ks. if y = k then 1 else 0) = (if y \<in> set ks then 1 else (0::nat))"
  by (induction ks) auto

lemma sum_group_sizes_general:
  assumes "distinct ks" and "f ` set xs \<subseteq> set ks"
  shows "(\<Sum>k \<leftarrow> ks. length (filter (\<lambda>d. f d = k) xs)) = length xs"
  using assms(2)
proof (induction xs)
  case Nil
  then show ?case by simp
next
  case (Cons x xs)
  have "(\<Sum>k \<leftarrow> ks. length (filter (\<lambda>d. f d = k) (x # xs)))
      = (\<Sum>k \<leftarrow> ks. (if f x = k then 1 else 0) + length (filter (\<lambda>d. f d = k) xs))"
    by (intro arg_cong[where f = sum_list] map_cong) simp_all
  also have "\<dots> = (\<Sum>k \<leftarrow> ks. if f x = k then 1 else 0)
      + (\<Sum>k \<leftarrow> ks. length (filter (\<lambda>d. f d = k) xs))"
    by (rule sum_list_addf)
  also have "(\<Sum>k \<leftarrow> ks. if f x = k then 1 else 0) = (1::nat)"
    using Cons.prems assms(1) by (simp add: sum_list_indicator)
  also have "(\<Sum>k \<leftarrow> ks. length (filter (\<lambda>d. f d = k) xs)) = length xs"
    using Cons by simp
  finally show ?case by simp
qed

lemma sum_group_sizes:
  "(\<Sum>k \<leftarrow> remdups (map f xs). length (filter (\<lambda>d. f d = k) xs)) = length xs"
  by (rule sum_group_sizes_general) simp_all

lemma sum_list_real: "(\<Sum>k \<leftarrow> ks. real (g k)) = real (\<Sum>k \<leftarrow> ks. g k)"
  by (induction ks) simp_all

lemma sensor_count_row_fields:
  "map_of (sensor_count_row k docs) ''total_readings''
     = Some (VNum (real (length (filter (\<lambda>d. dict_get d ''device_id'' = k) docs))))"
  "map_of (sensor_count_row k docs) ''device_id'' = Some k"
  by (simp_all add: sensor_count_row_def dict_of_def Let_def)

lemma readings_count_row_fields:
  "map_of (readings_count_row k docs) ''readings_count''
     = Some (VNum (real (length (filter (\<lambda>d. dict_get d ''device_id'' = k) docs))))"
  "map_of (readings_count_row k docs) ''device_id'' = Some k"
  by (simp_all add: readings_count_row_def dict_of_def Let_def)

lemma distinct_map_sort_reverse:
  "distinct (map g (sort_reverse k xs)) = distinct (map g xs)"
  unfolding sort_reverse_def by (simp add: distinct_map)

lemma field_key_number_le:
  "field_key (Some (VNum x)) \<le> field_key (Some (VNum y)) \<longleftrightarrow> x \<le> y"
  by (auto simp: field_key_def bson_key_def)

lemma count_rows_properties:
  fixes row :: "bson \<Rightarrow> doc list \<Rightarrow> doc" and c :: string
  assumes cnt: "\<And>k. map_of (row k docs) c
      = Some (VNum (real (length (filter (\<lambda>d. dict_get d ''device_id'' = k) docs))))"
    and dev: "\<And>k. map_of (row k docs) ''device_id'' = Some k"
  defines "rows \<equiv> sort_reverse (\<lambda>d. field_key (map_of d c))
            (map (\<lambda>k. row k docs) (remdups (map (\<lambda>d. dict_get d ''device_id'') docs)))"
  shows "(\<Sum>d \<leftarrow> rows. number_at c d) = real (length docs)"
    and "sorted_wrt (\<lambda>a b. number_at c b \<le> number_at c a) rows"
    and "distinct (map (\<lambda>d. map_of d ''device_id'') rows)"
    and "\<forall>d \<in> set rows. \<exists>k. map_of d ''device_id'' = Some k
           \<and> number_at c d = real (length (filter (\<lambda>r. dict_get r ''device_id'' = k) docs))"
proof -
  let ?keys = "remdups (map (\<lambda>d. dict_get d ''device_id'') docs)"
  let ?n = "\<lambda>k. length (filter (\<lambda>d. dict_get d ''device_id'' = k) docs)"
  have num: "\<And>k. number_at c (row k docs) = real (?n k)"
    by (simp add: number_at_def cnt)
  have "(\<Sum>d \<leftarrow> rows. number_at c d) = (\<Sum>d \<leftarrow> map (\<lambda>k. row k docs) ?keys. number_at c d)"
    unfolding rows_def by (rule sum_list_sort_reverse)
  also have "\<dots> = (\<Sum>k \<leftarrow> ?keys. real (?n k))"
    by (simp add: comp_def num)
  also have "\<dots> = real (\<Sum>k \<leftarrow> ?keys. ?n k)" by (rule sum_list_real)
  also have "(\<Sum>k \<leftarrow> ?keys. ?n k) = length docs" by (rule sum_group_sizes)
  finally show "(\<Sum>d \<leftarrow> rows. number_at c d) = real (length docs)" .
  have mem: "\<And>d. d \<in> set rows \<Longrightarrow> \<exists>k. d = row k docs"
    unfolding rows_def by (auto simp: set_sort_reverse)
  show "\<forall>d \<in> set rows. \<exists>k. map_of d ''device_id'' = Some k
           \<and> number_at c d = real (length (filter (\<lambda>r. dict_get r ''device_id'' = k) docs))"
    using mem num dev by blast
  have "sorted_wrt (\<lambda>a b. field_key (map_of b c) \<le> field_key (map_of a c)) rows"
    unfolding rows_def by (rule sorted_sort_reverse)
  then show "sorted_wrt (\<lambda>a b. number_at c b \<le> number_at c a) rows"
  proof (rule sorted_wrt_mono_rel[rotated])
    fix a b assume "a \<in> set rows" "b \<in> set rows"
      and le: "field_key (map_of b c) \<le> field_key (map_of a c)"
    then obtain ka kb where "a = row ka docs" "b = row kb docs" using mem by blast
    then show "number_at c b \<le> number_at c a"
      using le by (simp add: cnt num field_key_number_le)
  qed
  have "distinct (map (\<lambda>d. map_of d ''device_id'') (map (\<lambda>k. row k docs) ?keys))"
    by (simp add: comp_def dev distinct_map inj_on_def)
  then show "distinct (map (\<lambda>d. map_of d ''device_id'') rows)"
    unfolding rows_def by (simp only: distinct_map_sort_reverse)
qed

text \<open>
  Claim C9. When the store answers, the per-sensor count returns one row for each device
  id, carrying the number of stored documents with that device id, ordered by that number
  in descending order, and the numbers add up to the number of stored documents. The same
  holds for the count of the query class.
\<close>

theorem per_sensor_counts_sum:
  assumes "fault coll = None"
  shows "(\<exists>rows. count_readings_by_sensor (Some coll) = Inr rows
          \<and> (\<Sum>d \<leftarrow> rows. number_at ''total_readings'' d) = real (length (stored coll))
          \<and> sorted_wrt (\<lambda>a b. number_at ''total_readings'' b \<le> number_at ''total_readings'' a) rows
          \<and> distinct (map (\<lambda>d. map_of d ''device_id'') rows)
          \<and> (\<forall>d \<in> set rows. \<exists>k. map_of d ''device_id'' = Some k
                \<and> number_at ''total_readings'' d
                    = real (length (filter (\<lambda>r. dict_get r ''device_id'' = k) (stored coll)))))
       \<and> (\<exists>rows. get_readings_count_by_sensor (Some coll) = Inr rows
          \<and> (\<Sum>d \<leftarrow> rows. number_at ''readings_count'' d) = real (length (stored coll))
          \<and> sorted_wrt (\<lambda>a b. number_at ''readings_count'' b \<le> number_at ''readings_count'' a) rows
          \<and> distinct (map (\<lambda>d. map_of d ''device_id'') rows)
          \<and> (\<forall>d \<in> set rows. \<exists>k. map_of d ''device_id'' = Some k
                \<and> number_at ''readings_count'' d
                    = real (length (filter (\<lambda>r. dict_get r ''device_id'' = k) (stored coll)))))"
proof -
  let ?docs = "stored coll"
  let ?keys = "remdups (map (\<lambda>d. dict_get d ''device_id'') ?docs)"
  let ?a = "sort_reverse (\<lambda>d. field_key (map_of d ''total_readings''))
              (map (\<lambda>k. sensor_count_row k ?docs) ?keys)"
  let ?b = "sort_reverse (\<lambda>d. field_key (map_of d ''readings_count''))
              (map (\<lambda>k. readings_count_row k ?docs) ?keys)"
  have ra: "count_readings_by_sensor (Some coll) = Inr ?a"
    using assms
    by (simp add: count_readings_by_sensor_def except_return_empty_def collection_aggregate_def
        count_pipeline_def)
  have rb: "get_readings_count_by_sensor (Some coll) = Inr ?b"
    using assms
    by (simp add: get_readings_count_by_sensor_def except_return_empty_def
        collection_aggregate_def readings_count_pipeline_def)
  note pa = count_rows_properties[of sensor_count_row ?docs "''total_readings''",
      OF sensor_count_row_fields]
  note pb = count_rows_properties[of readings_count_row ?docs "''readings_count''",
      OF readings_count_row_fields]
  show ?thesis using ra rb pa pb by blast
qed

section \<open>The hourly summary: properties\<close>

























section \<open>The hourly summary on examples\<close>

lemma earlier_timestamp:
  "isoformat_utc (datetime_now_utc earlier_clock) = ''2026-11-03T09:45:00.250000+00:00''"
  by (simp add: isoformat_utc_def isoformat_def datetime_now_utc_def earlier_clock_def
      pad_numeral digit_char_def)

lemma old_timestamp:
  "isoformat_utc (datetime_now_utc old_clock) = ''2026-10-01T10:00:00+00:00''"
  by (simp add: isoformat_utc_def isoformat_def datetime_now_utc_def old_clock_def
      pad_numeral digit_char_def)

lemma earlier_interior_reading:
  "generate_interior_reading None other_draws earlier_clock
   = [(''device_id'', VStr ''sensor_01''), (''type'', VStr ''interior''),
      (''temperature'', VNum (41 / 2)), (''humidity'', VNum 33), (''light'', VNum 107),
      (''unit'', VStr ''C''), (''location'', VStr ''Sala 2''),
      (''timestamp'', VStr ''2026-11-03T09:45:00.250000+00:00'')]"
  by (simp add: generate_interior_reading_def dict_of_def interior_temp_range_def
      interior_humidity_range_def interior_light_range_def other_draws_def
      interior_sensors_def interior_locations_def random_choice_def randbelow_def
      random_randint_def random_uniform_def py_round_def round_half_even_def
      earlier_timestamp)

lemma old_interior_reading:
  "generate_interior_reading None sample_draws old_clock
   = [(''device_id'', VStr ''sensor_03''), (''type'', VStr ''interior''),
      (''temperature'', VNum 23), (''humidity'', VNum 34), (''light'', VNum 298),
      (''unit'', VStr ''C''), (''location'', VStr ''Oficina A''),
      (''timestamp'', VStr ''2026-10-01T10:00:00+00:00'')]"
  by (simp add: generate_interior_reading_def dict_of_def interior_temp_range_def
      interior_humidity_range_def interior_light_range_def sample_draws_def
      interior_sensors_def interior_locations_def random_choice_def randbelow_def
      random_randint_def random_uniform_def py_round_def round_half_even_def
      old_timestamp)

lemma query_local_micros:
  "to_micros (utc_now query_clock) + utcoffset_minutes query_clock * 60000000
   = 63929466000000000"
  by (simp add: query_clock_def to_micros_def ymd2ord_def days_before_year_def
      days_before_month_def is_leap_def)

lemma ord2ymd_query: "ord2ymd 739924 = (2026, 11, 4)" "ord2ymd 739922 = (2026, 11, 2)"
  by (simp_all add: ord2ymd_def days_before_month_def days_in_month_def is_leap_def)

lemma query_local_now:
  "datetime_now query_clock = \<lparr> year = 2026, month = 11, day = 4, hour = 9, minute = 0,
      second = 0, microsecond = 0 \<rparr>"
  unfolding datetime_now_def query_local_micros
  by (simp add: of_micros_def ord2ymd_query)

lemma query_local_now_micros: "to_micros (datetime_now query_clock) = 63929466000000000"
  unfolding query_local_now
  by (simp add: to_micros_def ymd2ord_def days_before_year_def
      days_before_month_def is_leap_def)

lemma query_start_1:
  "minus_hours (datetime_now query_clock) 1
   = Inr \<lparr> year = 2026, month = 11, day = 4, hour = 8, minute = 0,
      second = 0, microsecond = 0 \<rparr>"
  unfolding minus_hours_def query_local_now_micros
  by (simp add: of_micros_def ord2ymd_query)


lemma start_strings:
  "isoformat \<lparr> year = 2026, month = 11, day = 4, hour = 8, minute = 0,
      second = 0, microsecond = 0 \<rparr> = ''2026-11-04T08:00:00''"
  "isoformat \<lparr> year = 2026, month = 11, day = 2, hour = 9, minute = 0,
      second = 0, microsecond = 0 \<rparr> = ''2026-11-02T09:00:00''"
  by (simp_all add: isoformat_def pad_numeral digit_char_def)

lemma hour_of_samples:
  "dateFromString_hour ''2026-11-04T09:30:00+00:00'' = Inr 9"
  "dateFromString_hour ''2026-11-03T09:45:00.250000+00:00'' = Inr 9"
  by (simp_all add: dateFromString_hour_def number_of_def digit_val_def zone_part_def
      zone_minutes_def is_digit_def)


lemma window_1:
  "match_timestamp_gte ''2026-11-04T08:00:00''
     (generate_interior_reading None sample_draws sample_clock)"
  by (simp add: match_timestamp_gte_def sample_interior_reading)

lemma projected_samples:
  "project_hourly (generate_interior_reading None other_draws earlier_clock)
     = Inr \<lparr> row_hour = Some 9, row_type = Some (VStr ''interior''),
             row_temperature_celsius = Some (41 / 2) \<rparr>"
  "project_hourly (generate_exterior_reading None sample_draws sample_clock)
     = Inr \<lparr> row_hour = Some 9, row_type = Some (VStr ''exterior''),
             row_temperature_celsius = Some 20 \<rparr>"
  "project_hourly (generate_interior_reading None sample_draws sample_clock)
     = Inr \<lparr> row_hour = Some 9, row_type = Some (VStr ''interior''),
             row_temperature_celsius = Some 23 \<rparr>"
  by (simp_all add: project_hourly_def project_hour_def project_temperature_celsius_def
      bind_result_def dict_get_def hour_of_samples
      earlier_interior_reading sample_exterior_reading sample_interior_reading)





lemma stale_sample_run:
  "average_temperature_by_hour (Some stale_sample) query_clock 1
   = Inr [[(''hour'', VNum 9), (''sensor_type'', VStr ''interior''),
           (''average_temperature_celsius'', VNum 23), (''min_temperature_celsius'', VNum 23),
           (''max_temperature_celsius'', VNum 23), (''readings_count'', VNum 1)]]"
proof -
  have f: "fault stale_sample = None" by (simp add: stale_sample_def)
  have rows: "map_result project_hourly
     (filter (match_timestamp_gte ''2026-11-04T08:00:00'') (stored stale_sample))
     = Inr [\<lparr> row_hour = Some 9, row_type = Some (VStr ''interior''),
             row_temperature_celsius = Some 23 \<rparr>]"
    by (simp add: stale_sample_def window_1 projected_samples bind_result_def)
  show ?thesis
    unfolding average_temperature_by_hour_def average_temperature_by_hour_body_def
      query_start_1
    by (simp add: bind_result_def except_return_empty_def collection_aggregate_def f
        start_strings hourly_pipeline_def rows group_key_def hourly_summary_def dict_of_def
        round_stage_def accumulate_avg_def accumulate_min_def accumulate_max_def py_round_def
        round_half_even_def)
qed

lemma sample_age:
  "to_micros (utc_now query_clock) - to_micros (utc_now sample_clock) = 9000000000"
  by (simp add: query_clock_def sample_clock_def to_micros_def ymd2ord_def
      days_before_year_def days_before_month_def is_leap_def)

text \<open>
  Claim C7 fails on a machine whose local time zone is not UTC. The reading below was
  generated at 09:30:00 UTC; the summary of the last hour is asked for at 12:00:00 UTC, two
  and a half hours (9000 seconds) later, on a machine three hours behind UTC. The window
  starts at the local wall-clock time 08:00:00, written without a zone, and the UTC
  timestamp of the reading is compared with that string: the reading is selected although
  it is older than one hour.
\<close>

theorem stale_reading_selected:
  "stored stale_sample = [generate_interior_reading None sample_draws sample_clock]
   \<and> map_of (generate_interior_reading None sample_draws sample_clock) ''timestamp''
       = Some (VStr (isoformat_utc (utc_now sample_clock)))
   \<and> to_micros (utc_now sample_clock) < to_micros (utc_now query_clock) - 1 * 3600000000
   \<and> average_temperature_by_hour (Some stale_sample) query_clock 1
       = Inr [[(''hour'', VNum 9), (''sensor_type'', VStr ''interior''),
               (''average_temperature_celsius'', VNum 23),
               (''min_temperature_celsius'', VNum 23),
               (''max_temperature_celsius'', VNum 23), (''readings_count'', VNum 1)]]"
proof -
  have "to_micros (utc_now sample_clock) < to_micros (utc_now query_clock) - 1 * 3600000000"
    using sample_age by simp
  moreover have "map_of (generate_interior_reading None sample_draws sample_clock) ''timestamp''
       = Some (VStr (isoformat_utc (utc_now sample_clock)))"
    using sample_timestamp by (simp add: sample_interior_reading datetime_now_utc_def)
  moreover have "stored stale_sample
      = [generate_interior_reading None sample_draws sample_clock]"
    by (simp add: stale_sample_def)
  ultimately show ?thesis using stale_sample_run by blast
qed

section \<open>Failures of the store and of the computation\<close>





section \<open>The per-sensor count on an example\<close>

lemma hourly_sample_stored:
  "stored hourly_sample =
    [[(''device_id'', VStr ''sensor_01''), (''type'', VStr ''interior''),
      (''temperature'', VNum (41 / 2)), (''humidity'', VNum 33), (''light'', VNum 107),
      (''unit'', VStr ''C''), (''location'', VStr ''Sala 2''),
      (''timestamp'', VStr ''2026-11-03T09:45:00.250000+00:00'')],
     [(''device_id'', VStr ''sensor_04''), (''type'', VStr ''exterior''),
      (''temperature'', VNum 68), (''light'', VNum 399), (''uv_index'', VNum (17 / 2)),
      (''unit'', VStr ''F''), (''location'', VStr ''Terraza''),
      (''timestamp'', VStr ''2026-11-04T09:30:00+00:00'')],
     [(''device_id'', VStr ''sensor_03''), (''type'', VStr ''interior''),
      (''temperature'', VNum 23), (''humidity'', VNum 34), (''light'', VNum 298),
      (''unit'', VStr ''C''), (''location'', VStr ''Oficina A''),
      (''timestamp'', VStr ''2026-11-04T09:30:00+00:00'')],
     [(''device_id'', VStr ''sensor_03''), (''type'', VStr ''interior''),
      (''temperature'', VNum 23), (''humidity'', VNum 34), (''light'', VNum 298),
      (''unit'', VStr ''C''), (''location'', VStr ''Oficina A''),
      (''timestamp'', VStr ''2026-10-01T10:00:00+00:00'')]]"
  by (simp add: hourly_sample_def earlier_interior_reading sample_exterior_reading
      sample_interior_reading old_interior_reading)

lemma hourly_sample_keys:
  "remdups (map (\<lambda>d. dict_get d ''device_id'') (stored hourly_sample))
   = [VStr ''sensor_01'', VStr ''sensor_04'', VStr ''sensor_03'']"
  by (simp add: hourly_sample_stored dict_get_def)

lemma hourly_sample_count_rows:
  "sensor_count_row (VStr ''sensor_01'') (stored hourly_sample)
   = [(''total_readings'', VNum 1), (''sensor_type'', VStr ''interior''),
           (''location'', VStr ''Sala 2''),
           (''first_reading'', VStr ''2026-11-03T09:45:00.250000+00:00''),
           (''last_reading'', VStr ''2026-11-03T09:45:00.250000+00:00''),
           (''device_id'', VStr ''sensor_01'')]"
  "sensor_count_row (VStr ''sensor_04'') (stored hourly_sample)
   = [(''total_readings'', VNum 1), (''sensor_type'', VStr ''exterior''),
           (''location'', VStr ''Terraza''),
           (''first_reading'', VStr ''2026-11-04T09:30:00+00:00''),
           (''last_reading'', VStr ''2026-11-04T09:30:00+00:00''),
           (''device_id'', VStr ''sensor_04'')]"
  "sensor_count_row (VStr ''sensor_03'') (stored hourly_sample)
   = [(''total_readings'', VNum 2), (''sensor_type'', VStr ''interior''),
           (''location'', VStr ''Oficina A''),
           (''first_reading'', VStr ''2026-10-01T10:00:00+00:00''),
           (''last_reading'', VStr ''2026-11-04T09:30:00+00:00''),
           (''device_id'', VStr ''sensor_03'')]"
  by (simp_all add: hourly_sample_stored sensor_count_row_def dict_get_def dict_of_def
      first_field_def field_min_def field_max_def min_bson_def max_bson_def bson_key_def)

lemma hourly_sample_counts:
  "count_readings_by_sensor (Some hourly_sample)
   = Inr [[(''total_readings'', VNum 2), (''sensor_type'', VStr ''interior''),
           (''location'', VStr ''Oficina A''),
           (''first_reading'', VStr ''2026-10-01T10:00:00+00:00''),
           (''last_reading'', VStr ''2026-11-04T09:30:00+00:00''),
           (''device_id'', VStr ''sensor_03'')],
          [(''total_readings'', VNum 1), (''sensor_type'', VStr ''interior''),
           (''location'', VStr ''Sala 2''),
           (''first_reading'', VStr ''2026-11-03T09:45:00.250000+00:00''),
           (''last_reading'', VStr ''2026-11-03T09:45:00.250000+00:00''),
           (''device_id'', VStr ''sensor_01'')],
          [(''total_readings'', VNum 1), (''sensor_type'', VStr ''exterior''),
           (''location'', VStr ''Terraza''),
           (''first_reading'', VStr ''2026-11-04T09:30:00+00:00''),
           (''last_reading'', VStr ''2026-11-04T09:30:00+00:00''),
           (''device_id'', VStr ''sensor_04'')]]"
proof -
  have f: "fault hourly_sample = None" by (simp add: hourly_sample_def)
  show ?thesis
    by (simp add: count_readings_by_sensor_def collection_aggregate_def count_pipeline_def
        hourly_sample_keys f except_return_empty_def hourly_sample_count_rows
        sort_reverse_def field_key_def bson_key_def)
qed

theorem per_sensor_counts_sum_witness:
  "fault hourly_sample = None
   \<and> length (stored hourly_sample) = 4
   \<and> (\<exists>rows. count_readings_by_sensor (Some hourly_sample) = Inr rows
         \<and> (\<Sum>d \<leftarrow> rows. number_at ''total_readings'' d) = 4
         \<and> map (number_at ''total_readings'') rows = [2, 1, 1]
         \<and> map (\<lambda>d. map_of d ''device_id'') rows
             = [Some (VStr ''sensor_03''), Some (VStr ''sensor_01''), Some (VStr ''sensor_04'')])"
proof -
  have f: "fault hourly_sample = None" by (simp add: hourly_sample_def)
  have l: "length (stored hourly_sample) = 4" by (simp add: hourly_sample_def)
  have "\<exists>rows. count_readings_by_sensor (Some hourly_sample) = Inr rows
      \<and> (\<Sum>d \<leftarrow> rows. number_at ''total_readings'' d) = real (length (stored hourly_sample))"
    using per_sensor_counts_sum [OF f, THEN conjunct1]
    by (elim exE conjE) (intro exI conjI; assumption)
  then obtain rows where r1: "count_readings_by_sensor (Some hourly_sample) = Inr rows"
    and r2: "(\<Sum>d \<leftarrow> rows. number_at ''total_readings'' d) = real (length (stored hourly_sample))"
    by (elim exE conjE)
  have s: "(\<Sum>d \<leftarrow> rows. number_at ''total_readings'' d) = 4"
    unfolding r2 l by simp
  have rows: "Inr rows = count_readings_by_sensor (Some hourly_sample)"
    using r1 by (rule sym)
  have m: "map (number_at ''total_readings'') rows = [2, 1, 1]"
    using rows unfolding hourly_sample_counts by (auto simp: number_at_def)
  have d: "map (\<lambda>d. map_of d ''device_id'') rows
             = [Some (VStr ''sensor_03''), Some (VStr ''sensor_01''), Some (VStr ''sensor_04'')]"
    using rows unfolding hourly_sample_counts by auto
  show ?thesis
    by (intro conjI exI[of _ rows]) (rule f l r1 s m d)+
qed

end
